theory Spec2Isabelle
  imports Main
begin

section \<open>JavaScript primitives used by app.js\<close>

text \<open>
  Strings are sequences of code units below 256 (\<^typ>\<open>char\<close>), which covers every
  string the handlers compare or build. An absent value (\<open>undefined\<close>, \<open>null\<close>) of a
  string-valued field is \<^term>\<open>None\<close>. Console output is not part of the model.
\<close>

type_synonym jstext = "string option"

subsection \<open>Character classes\<close>

definition is_digit :: "char \<Rightarrow> bool" where
  "is_digit c = (c \<in> set ''0123456789'')"

text \<open>The line terminators that \<open>.\<close> of a regular expression does not match.\<close>

definition is_line_terminator :: "char \<Rightarrow> bool" where
  "is_line_terminator c = (c = CHR 0x0A \<or> c = CHR 0x0D)"

text \<open>White space and line terminators, as stripped by \<open>trim\<close>, \<open>parseInt\<close> and the
  conversion of a string to a number.\<close>

definition is_white_space :: "char \<Rightarrow> bool" where
  "is_white_space c =
     (c \<in> set [CHR 0x09, CHR 0x0A, CHR 0x0B, CHR 0x0C, CHR 0x0D, CHR 0x20, CHR 0xA0])"

definition trim_start :: "string \<Rightarrow> string" where
  "trim_start s = dropWhile is_white_space s"

definition trim :: "string \<Rightarrow> string" where
  "trim s = rev (dropWhile is_white_space (rev (dropWhile is_white_space s)))"

subsection \<open>Searching in strings and arrays\<close>

text \<open>\<open>s.includes(sub)\<close>\<close>

fun str_includes :: "string \<Rightarrow> string \<Rightarrow> bool" where
  "str_includes [] sub = (sub = [])"
| "str_includes (c # cs) sub = (take (length sub) (c # cs) = sub \<or> str_includes cs sub)"

text \<open>\<open>s.lastIndexOf(c)\<close>; \<^term>\<open>None\<close> is \<open>-1\<close>.\<close>

fun lastIndexOf :: "string \<Rightarrow> char \<Rightarrow> nat option" where
  "lastIndexOf [] c = None"
| "lastIndexOf (x # xs) c =
     (case lastIndexOf xs c of
        Some k \<Rightarrow> Some (Suc k)
      | None \<Rightarrow> if x = c then Some 0 else None)"

text \<open>\<open>xs.findIndex(p)\<close> and \<open>xs.indexOf(v)\<close>; \<^term>\<open>None\<close> is \<open>-1\<close>.
  \<open>xs.find(p)\<close> returns the element at that index, by reference.\<close>

fun findIndex :: "('a \<Rightarrow> bool) \<Rightarrow> 'a list \<Rightarrow> nat option" where
  "findIndex p [] = None"
| "findIndex p (x # xs) = (if p x then Some 0 else map_option Suc (findIndex p xs))"

definition indexOf :: "'a list \<Rightarrow> 'a \<Rightarrow> nat option" where
  "indexOf xs v = findIndex (\<lambda>x. x = v) xs"

text \<open>\<open>xs.splice(i, 1)\<close> for an index in range.\<close>

definition splice1 :: "nat \<Rightarrow> 'a list \<Rightarrow> 'a list" where
  "splice1 i xs = take i xs @ drop (Suc i) xs"

text \<open>\<open>s.split(c)\<close> for a one-character separator.\<close>

fun split :: "char \<Rightarrow> string \<Rightarrow> string list" where
  "split c [] = [[]]"
| "split c (x # xs) =
     (if x = c then [] # split c xs
      else (case split c xs of h # t \<Rightarrow> (x # h) # t | [] \<Rightarrow> [[x]]))"

subsection \<open>Numbers read from strings\<close>

definition digit_value :: "char \<Rightarrow> nat option" where
  "digit_value c =
     (if c \<in> set ''0123456789'' then Some (of_char c - 48)
      else if c \<in> set ''abcdef'' then Some (of_char c - 87)
      else if c \<in> set ''ABCDEF'' then Some (of_char c - 55)
      else None)"

definition is_radix_digit :: "nat \<Rightarrow> char \<Rightarrow> bool" where
  "is_radix_digit r c = (case digit_value c of Some v \<Rightarrow> v < r | None \<Rightarrow> False)"

definition radix_value :: "nat \<Rightarrow> string \<Rightarrow> nat" where
  "radix_value r ds = foldl (\<lambda>a c. a * r + (case digit_value c of Some v \<Rightarrow> v | None \<Rightarrow> 0)) 0 ds"

definition has_prefix0 :: "string \<Rightarrow> string \<Rightarrow> bool" where
  "has_prefix0 s letters =
     (case s of a # b # _ \<Rightarrow> a = CHR ''0'' \<and> b \<in> set letters | _ \<Rightarrow> False)"

text \<open>
  \<open>parseInt(str)\<close> with no radix: leading white space is skipped, then an optional sign,
  then an optional \<open>0x\<close>/\<open>0X\<close> (which selects radix 16), then the longest run of
  digits; whatever follows is ignored. \<^term>\<open>None\<close> is \<open>NaN\<close>. Only comparisons of
  the result with array lengths are made by the callers, so the mathematical integer
  stands for the double.
\<close>

definition parseInt :: "string \<Rightarrow> int option" where
  "parseInt str =
     (let S = trim_start str;
          sgn = (case S of c # _ \<Rightarrow> if c = CHR ''-'' then (- 1 :: int) else 1 | [] \<Rightarrow> 1);
          S1 = (case S of c # r \<Rightarrow> if c = CHR ''-'' \<or> c = CHR ''+'' then r else S | [] \<Rightarrow> S);
          R = (if has_prefix0 S1 ''xX'' then 16 else 10);
          S2 = (if has_prefix0 S1 ''xX'' then drop 2 S1 else S1);
          Z = takeWhile (is_radix_digit R) S2
      in if Z = [] then None else Some (sgn * int (radix_value R Z)))"

text \<open>
  The numeric value of a string (\<open>StringToNumber\<close>), as the abstract equality
  \<open>==\<close> computes it when one side is a number. \<^term>\<open>Decimal m e\<close> is the
  mathematical value \<open>m * 10^e\<close> of the literal; the Number it stands for is that value
  rounded to a double (\<open>RoundMV\<close> below).
\<close>

datatype js_number = NaN | Infinity bool | Decimal int int

definition negate :: "js_number \<Rightarrow> js_number" where
  "negate x = (case x of NaN \<Rightarrow> NaN | Infinity b \<Rightarrow> Infinity (\<not> b) | Decimal m e \<Rightarrow> Decimal (- m) e)"

definition ExponentPart :: "string \<Rightarrow> int option" where
  "ExponentPart r =
     (case r of
        [] \<Rightarrow> Some 0
      | c # r1 \<Rightarrow>
          if c = CHR ''e'' \<or> c = CHR ''E'' then
            (let sg = (case r1 of x # _ \<Rightarrow> if x = CHR ''-'' then (- 1 :: int) else 1 | [] \<Rightarrow> 1);
                 ds = (case r1 of x # r2 \<Rightarrow> if x = CHR ''-'' \<or> x = CHR ''+'' then r2 else r1
                       | [] \<Rightarrow> r1)
             in if ds \<noteq> [] \<and> list_all is_digit ds
                then Some (sg * int (radix_value 10 ds)) else None)
          else None)"

definition StrUnsignedDecimalLiteral :: "string \<Rightarrow> js_number" where
  "StrUnsignedDecimalLiteral r =
     (if r = ''Infinity'' then Infinity True
      else
        let ip = takeWhile is_digit r;
            r1 = dropWhile is_digit r;
            dot = (case r1 of c # _ \<Rightarrow> c = CHR ''.'' | [] \<Rightarrow> False);
            fp = (if dot then takeWhile is_digit (tl r1) else []);
            r2 = (if dot then dropWhile is_digit (tl r1) else r1)
        in if ip = [] \<and> fp = [] then NaN
           else (case ExponentPart r2 of
                   None \<Rightarrow> NaN
                 | Some ex \<Rightarrow> Decimal (int (radix_value 10 (ip @ fp))) (ex - int (length fp))))"

definition NonDecimalIntegerLiteral :: "nat \<Rightarrow> string \<Rightarrow> js_number" where
  "NonDecimalIntegerLiteral r ds =
     (if ds \<noteq> [] \<and> list_all (is_radix_digit r) ds then Decimal (int (radix_value r ds)) 0
      else NaN)"

definition StringToNumber :: "string \<Rightarrow> js_number" where
  "StringToNumber str =
     (let t = trim str in
      if t = [] then Decimal 0 0
      else if has_prefix0 t ''xX'' then NonDecimalIntegerLiteral 16 (drop 2 t)
      else if has_prefix0 t ''oO'' then NonDecimalIntegerLiteral 8 (drop 2 t)
      else if has_prefix0 t ''bB'' then NonDecimalIntegerLiteral 2 (drop 2 t)
      else if hd t = CHR ''-'' then negate (StrUnsignedDecimalLiteral (tl t))
      else if hd t = CHR ''+'' then StrUnsignedDecimalLiteral (tl t)
      else StrUnsignedDecimalLiteral t)"

text \<open>
  Rounding to binary64, to nearest with ties to even, in integer arithmetic; the exact
  value of the literal is rounded, as Node's engine does for any number of digits. For a
  positive rational \<open>a / b\<close>: \<^term>\<open>binary_exponent a b\<close> is the \<open>k\<close> with
  \<open>2^k \<le> a / b < 2^(k + 1)\<close>; the unit in the last place is \<open>2^(max k (- 1022) - 52)\<close>
  (subnormal below \<open>2^(- 1022)\<close>); the significand is \<open>a / b\<close> over that unit, rounded
  to an integer; a result of \<open>2^1024\<close> or more is infinite.
  \<^term>\<open>Binary M p\<close> denotes \<open>M * 2^p\<close>.
\<close>

fun bit_length :: "nat \<Rightarrow> nat" where
  "bit_length n = (if n = 0 then 0 else Suc (bit_length (n div 2)))"

declare bit_length.simps [simp del]

definition round_half_even :: "nat \<Rightarrow> nat \<Rightarrow> nat" where
  "round_half_even a b =
     (if 2 * (a mod b) < b then a div b
      else if b < 2 * (a mod b) then a div b + 1
      else if even (a div b) then a div b
      else a div b + 1)"

definition binary_exponent :: "nat \<Rightarrow> nat \<Rightarrow> int" where
  "binary_exponent a b =
     (let k0 = int (bit_length a) - int (bit_length b) in
      if (if 0 \<le> k0 then b * 2 ^ nat k0 \<le> a else b \<le> a * 2 ^ nat (- k0)) then k0
      else k0 - 1)"

datatype js_double = Overflow | Binary int int

definition significand :: "nat \<Rightarrow> nat \<Rightarrow> int \<Rightarrow> nat" where
  "significand a b p =
     (if 0 \<le> p then round_half_even a (b * 2 ^ nat p)
      else round_half_even (a * 2 ^ nat (- p)) b)"

definition round_at :: "int \<Rightarrow> nat \<Rightarrow> nat \<Rightarrow> int \<Rightarrow> js_double" where
  "round_at sg a b e0 =
     (if 1023 < e0 then Overflow
      else if e0 = 1023 \<and> 2 ^ 53 \<le> significand a b (e0 - 52) then Overflow
      else Binary (sg * int (significand a b (e0 - 52))) (e0 - 52))"

definition round_ratio :: "int \<Rightarrow> nat \<Rightarrow> nat \<Rightarrow> js_double" where
  "round_ratio sg a b = round_at sg a b (max (binary_exponent a b) (- 1022))"

definition RoundMV :: "int \<Rightarrow> int \<Rightarrow> js_double" where
  "RoundMV m e =
     (if m = 0 then Binary 0 0
      else if 0 \<le> e then round_ratio (sgn m) (nat \<bar>m\<bar> * 10 ^ nat e) 1
      else round_ratio (sgn m) (nat \<bar>m\<bar>) (10 ^ nat (- e)))"

text \<open>Whether the Number a string converts to is the integer \<open>n\<close>.\<close>

definition number_is :: "js_number \<Rightarrow> int \<Rightarrow> bool" where
  "number_is x n =
     (case x of
        NaN \<Rightarrow> False
      | Infinity _ \<Rightarrow> False
      | Decimal m e \<Rightarrow>
          (case RoundMV m e of
             Overflow \<Rightarrow> False
           | Binary M p \<Rightarrow> if 0 \<le> p then M * 2 ^ nat p = n else M = n * 2 ^ nat (- p)))"

subsection \<open>Identifier values and their two equalities\<close>

text \<open>
  The \<open>id\<close> of a stored record is a string (records created by this program), a
  Number with an integer value (records that predate the identifiers) or absent. The
  route parameter it is compared with is always a string.
\<close>

datatype jsval = JUndefined | JStr string | JNum int

text \<open>\<open>v == param\<close>\<close>

fun loose_eq :: "jsval \<Rightarrow> string \<Rightarrow> bool" where
  "loose_eq JUndefined p = False"
| "loose_eq (JStr s) p = (s = p)"
| "loose_eq (JNum n) p = number_is (StringToNumber p) n"

text \<open>\<open>v === param\<close>\<close>

fun strict_eq :: "jsval \<Rightarrow> string \<Rightarrow> bool" where
  "strict_eq (JStr s) p = (s = p)"
| "strict_eq _ p = False"

subsection \<open>\<open>encodeURIComponent\<close>\<close>

definition hex_digit :: "nat \<Rightarrow> char" where
  "hex_digit n = ''0123456789ABCDEF'' ! (n mod 16)"

definition percent :: "nat \<Rightarrow> string" where
  "percent b = [CHR ''%'', hex_digit (b div 16), hex_digit b]"

definition is_unreserved :: "char \<Rightarrow> bool" where
  "is_unreserved c =
     (c \<in> set ''ABCDEFGHIJKLMNOPQRSTUVWXYZabcdefghijklmnopqrstuvwxyz0123456789-_.!~*()''
      \<or> c = CHR 0x27)"

definition encode_char :: "char \<Rightarrow> string" where
  "encode_char c =
     (let n = (of_char c :: nat) in
      if is_unreserved c then [c]
      else if n < 128 then percent n
      else percent (192 + n div 64) @ percent (128 + n mod 64))"

definition encodeURIComponent :: "string \<Rightarrow> string" where
  "encodeURIComponent s = concat (map encode_char s)"

section \<open>The portfolio document\<close>

text \<open>
  The single document stored under \<open>portfolio_data\<close>. Its arrays hold plain objects;
  the fields below are the ones app.js reads or writes (a slide's and a photo's asset
  reference is the field \<open>url\<close>). The objects \<open>about\<close> and \<open>projectSummary\<close> and the
  array \<open>images\<close> of a project are taken to exist, as in every document the program
  creates.
\<close>

record slide =
  slide_title :: jstext
  slide_description :: jstext
  slide_link :: jstext
  slide_buttonText :: jstext
  slide_url :: jstext

record about_section =
  summary :: jstext
  fullStory :: jstext
  skills :: "string list"
  photoUrl :: jstext

record project_summary =
  ps_title :: jstext
  paragraph1 :: jstext
  paragraph2 :: jstext
  buttonLink :: jstext
  ps_image :: jstext

record education_entry =
  edu_id :: jsval
  imageUrl :: jstext
  edu_title :: jstext
  institution :: jstext
  years :: jstext

record certificate =
  cert_id :: jsval
  cert_title :: jstext
  issuer :: jstext
  pdfUrl :: jstext

record photo =
  photo_id :: jsval
  url :: jstext
  caption :: jstext

record project =
  project_id :: jsval
  project_title :: jstext
  description :: jstext
  githubLink :: jstext
  images :: "string list"

record footer_info =
  footer_name :: jstext
  line1 :: jstext
  line2 :: jstext
  footer_githubLink :: jstext
  emailLink :: jstext
  phoneLink :: jstext
  linkedinLink :: jstext

record portfolio =
  carousel :: "slide list"
  about :: about_section
  projectSummary :: project_summary
  education :: "education_entry list"
  certificates :: "certificate list"
  gallery :: "photo list"
  projects :: "project list"
  footerInfo :: "footer_info option"

section \<open>The server: held reference, store, asset store\<close>

text \<open>
  The calls that leave the process are recorded in order: an upload performed by the
  multer storage engine, \<open>cloudinary.uploader.destroy\<close>, \<open>portfolioData.save()\<close>
  (with the document handed to the store) and \<open>Portfolio.findById\<close>.
\<close>

datatype event = Upload string | Destroy string | Save portfolio | FindById

text \<open>
  \<open>portfolioData\<close> is the process-wide held reference (\<open>null\<close> until loaded), \<open>db\<close>
  the document the store holds, \<open>isLoggedIn\<close> is \<open>app.locals.isLoggedIn\<close>.
\<close>

record server =
  portfolioData :: "portfolio option"
  db :: "portfolio option"
  isLoggedIn :: bool
  trace :: "event list"

text \<open>What the outside decides during one request: whether the store rejects the write
  or the read, and the identifier \<open>uuidv4()\<close> returns.\<close>

record world =
  save_fails :: bool
  find_fails :: bool
  uuid :: string

text \<open>
  What \<open>upload.single(field)\<close> hands to its callback: an error, no file, or
  \<open>req.file\<close> whose \<open>path\<close> is the URL under which the asset store now serves
  the uploaded file.
\<close>

datatype upload_result = UploadError | NoFile | Uploaded string

datatype response = Redirect string | Send nat string | Unhandled

text \<open>\<^term>\<open>Unhandled\<close>: the handler's promise is rejected and the handler itself
  sends nothing.\<close>

definition emit :: "event \<Rightarrow> server \<Rightarrow> server" where
  "emit ev s = s\<lparr>trace := trace s @ [ev]\<rparr>"

definition single :: "upload_result \<Rightarrow> server \<Rightarrow> server" where
  "single up s = (case up of Uploaded p \<Rightarrow> emit (Upload p) s | _ \<Rightarrow> s)"

definition req_file :: "upload_result \<Rightarrow> string option" where
  "req_file up = (case up of Uploaded p \<Rightarrow> Some p | _ \<Rightarrow> None)"

definition upload_failed :: "string \<Rightarrow> response" where
  "upload_failed msg = Redirect (''/admin?uploadError='' @ encodeURIComponent msg)"

subsection \<open>Asset deletion\<close>

text \<open>The capture of \<open>/\/upload\/(?:v\d+\/)?(.*)/\<close>: the text after the leftmost
  \<open>/upload/\<close>, without a leading \<open>v<digits>/\<close>, up to the first line terminator.\<close>

fun after_first :: "string \<Rightarrow> string \<Rightarrow> string option" where
  "after_first m [] = (if m = [] then Some [] else None)"
| "after_first m (c # cs) =
     (if take (length m) (c # cs) = m then Some (drop (length m) (c # cs))
      else after_first m cs)"

definition skip_version :: "string \<Rightarrow> string" where
  "skip_version r =
     (case r of
        [] \<Rightarrow> r
      | c # r1 \<Rightarrow>
          if c = CHR ''v'' \<and> takeWhile is_digit r1 \<noteq> []
             \<and> take 1 (dropWhile is_digit r1) = ''/''
          then drop 1 (dropWhile is_digit r1) else r)"

definition regex_match :: "string \<Rightarrow> string option" where
  "regex_match u =
     map_option (\<lambda>r. takeWhile (\<lambda>c. \<not> is_line_terminator c) (skip_version r))
       (after_first ''/upload/'' u)"

definition extractPublicId :: "jstext \<Rightarrow> string option" where
  "extractPublicId fileUrl =
     (case fileUrl of
        None \<Rightarrow> None
      | Some u \<Rightarrow>
          if u = [] then None
          else if str_includes u ''cloudinary.com'' then
            (case regex_match u of
               None \<Rightarrow> None
             | Some m1 \<Rightarrow>
                 if m1 = [] then None
                 else Some (case lastIndexOf m1 (CHR ''.'') of None \<Rightarrow> [] | Some k \<Rightarrow> take k m1))
          else None)"

text \<open>
  \<open>deleteCloudinaryAsset(publicId)\<close> returns at once on a falsy identifier. Otherwise it
  calls the asset store; whatever the store answers or throws only selects a console
  message, so the function always returns normally.
\<close>

definition deleteCloudinaryAsset :: "string option \<Rightarrow> server \<Rightarrow> server" where
  "deleteCloudinaryAsset publicId s =
     (case publicId of
        None \<Rightarrow> s
      | Some pid \<Rightarrow> if pid = [] then s else emit (Destroy pid) s)"

subsection \<open>Store access\<close>

text \<open>\<open>await portfolioData.save()\<close>, after \<open>markModified\<close> of the path that was
  changed: the store then holds what the held document holds. The flag tells whether the
  promise resolved; a rejected write leaves the store as it was.\<close>

definition save :: "world \<Rightarrow> server \<Rightarrow> bool \<times> server" where
  "save w s =
     (case portfolioData s of
        None \<Rightarrow> (False, s)
      | Some d \<Rightarrow>
          if save_fails w then (False, emit (Save d) s)
          else (True, (emit (Save d) s)\<lparr>db := Some d\<rparr>))"

text \<open>\<open>portfolioData = await Portfolio.findById('portfolio_data')\<close>\<close>

definition findById :: "world \<Rightarrow> server \<Rightarrow> bool \<times> server" where
  "findById w s =
     (if find_fails w then (False, emit FindById s)
      else (True, (emit FindById s)\<lparr>portfolioData := db s\<rparr>))"

text \<open>The two endings of a handler that changed the held document: save and redirect,
  or save, reload and redirect. \<open>on_error\<close> is what a rejected promise leads to.\<close>

definition save_redirect :: "world \<Rightarrow> server \<Rightarrow> response \<Rightarrow> string \<Rightarrow> server \<times> response" where
  "save_redirect w s on_error target =
     (case save w s of
        (False, s1) \<Rightarrow> (s1, on_error)
      | (True, s1) \<Rightarrow> (s1, Redirect target))"

definition save_reload_redirect ::
  "world \<Rightarrow> server \<Rightarrow> response \<Rightarrow> string \<Rightarrow> server \<times> response" where
  "save_reload_redirect w s on_error target =
     (case save w s of
        (False, s1) \<Rightarrow> (s1, on_error)
      | (True, s1) \<Rightarrow>
          (case findById w s1 of
             (False, s2) \<Rightarrow> (s2, on_error)
           | (True, s2) \<Rightarrow> (s2, Redirect target)))"

definition hold :: "portfolio \<Rightarrow> server \<Rightarrow> server" where
  "hold d s = s\<lparr>portfolioData := Some d\<rparr>"

section \<open>The admin routes that change the document\<close>

text \<open>
  Each handler takes the outside's decisions \<open>w\<close>, the server \<open>s\<close> and the held
  document \<open>d\<close> (the gate below has checked that it is loaded), and returns the
  server afterwards with the response. Assignments to fields of \<open>portfolioData\<close> are
  collected into the new held document.
\<close>

definition update_carousel ::
  "world \<Rightarrow> server \<Rightarrow> portfolio \<Rightarrow> string \<Rightarrow> upload_result \<Rightarrow>
   jstext \<Rightarrow> jstext \<Rightarrow> jstext \<Rightarrow> jstext \<Rightarrow> server \<times> response" where
  "update_carousel w s d idx up title descr link buttonText =
     (if up = UploadError then (s, upload_failed ''Carousel upload failed. Check server log.'')
      else
        let s0 = single up s in
        case parseInt idx of
          None \<Rightarrow> (s0, Redirect ''/admin#carousel'')
        | Some index \<Rightarrow>
            if 0 \<le> index \<and> index < int (length (carousel d)) then
              let k = nat index;
                  old = carousel d ! k;
                  s1 = (case req_file up of
                          Some p \<Rightarrow> deleteCloudinaryAsset (extractPublicId (slide_url old)) s0
                        | None \<Rightarrow> s0);
                  sl = (case req_file up of Some p \<Rightarrow> old\<lparr>slide_url := Some p\<rparr> | None \<Rightarrow> old);
                  d' = d\<lparr>carousel := (carousel d)
                         [k := sl\<lparr>slide_title := title, slide_description := descr,
                                  slide_link := link, slide_buttonText := buttonText\<rparr>]\<rparr>
              in save_redirect w (hold d' s1) Unhandled ''/admin#carousel''
            else (s0, Redirect ''/admin#carousel''))"

definition upload_photo ::
  "world \<Rightarrow> server \<Rightarrow> portfolio \<Rightarrow> upload_result \<Rightarrow> server \<times> response" where
  "upload_photo w s d up =
     (if up = UploadError
      then (s, upload_failed ''Profile photo upload failed. Check server log.'')
      else
        let s0 = single up s in
        case req_file up of
          None \<Rightarrow> (s0, Redirect ''/admin#general'')
        | Some p \<Rightarrow>
            let s1 = deleteCloudinaryAsset (extractPublicId (photoUrl (about d))) s0;
                d' = d\<lparr>about := (about d)\<lparr>photoUrl := Some p\<rparr>\<rparr>
            in save_redirect w (hold d' s1) Unhandled ''/admin#general'')"

definition update_project_summary ::
  "world \<Rightarrow> server \<Rightarrow> portfolio \<Rightarrow> upload_result \<Rightarrow>
   jstext \<Rightarrow> jstext \<Rightarrow> jstext \<Rightarrow> jstext \<Rightarrow> server \<times> response" where
  "update_project_summary w s d up title p1 p2 blink =
     (if up = UploadError
      then (s, upload_failed ''Project summary image upload failed. Check server log.'')
      else
        let s0 = single up s;
            old = projectSummary d;
            s1 = (case req_file up of
                    Some p \<Rightarrow> deleteCloudinaryAsset (extractPublicId (ps_image old)) s0
                  | None \<Rightarrow> s0);
            ps = (case req_file up of Some p \<Rightarrow> old\<lparr>ps_image := Some p\<rparr> | None \<Rightarrow> old);
            d' = d\<lparr>projectSummary := ps\<lparr>ps_title := title, paragraph1 := p1,
                                         paragraph2 := p2, buttonLink := blink\<rparr>\<rparr>
        in save_redirect w (hold d' s1) Unhandled ''/admin#general'')"

definition upload_project_image ::
  "world \<Rightarrow> server \<Rightarrow> portfolio \<Rightarrow> string \<Rightarrow> upload_result \<Rightarrow> server \<times> response" where
  "upload_project_image w s d projectId up =
     (if up = UploadError
      then (s, upload_failed ''Project image upload failed. Check server log.'')
      else
        let s0 = single up s in
        case findIndex (\<lambda>p. strict_eq (project_id p) projectId) (projects d) of
          None \<Rightarrow> (s0, Redirect ''/admin#projects'')
        | Some i \<Rightarrow>
            (case req_file up of
               None \<Rightarrow> (s0, Redirect ''/admin#projects'')
             | Some path \<Rightarrow>
                 let pr = projects d ! i;
                     d' = d\<lparr>projects := (projects d)[i := pr\<lparr>images := images pr @ [path]\<rparr>]\<rparr>
                 in save_redirect w (hold d' s0) Unhandled ''/admin#projects''))"

definition delete_project_image ::
  "world \<Rightarrow> server \<Rightarrow> portfolio \<Rightarrow> string \<Rightarrow> jstext \<Rightarrow> server \<times> response" where
  "delete_project_image w s d projectId imageUrl' =
     (case findIndex (\<lambda>p. strict_eq (project_id p) projectId) (projects d) of
        None \<Rightarrow> (s, Redirect ''/admin#projects'')
      | Some i \<Rightarrow>
          (case imageUrl' of
             None \<Rightarrow> (s, Redirect ''/admin#projects'')
           | Some u \<Rightarrow>
               if u = [] then (s, Redirect ''/admin#projects'')
               else
                 (case indexOf (images (projects d ! i)) u of
                    None \<Rightarrow> (s, Redirect ''/admin#projects'')
                  | Some imageIndex \<Rightarrow>
                      let s1 = deleteCloudinaryAsset (extractPublicId (Some u)) s;
                          pr = projects d ! i;
                          d' = d\<lparr>projects := (projects d)
                                 [i := pr\<lparr>images := splice1 imageIndex (images pr)\<rparr>]\<rparr>
                      in save_reload_redirect w (hold d' s1) Unhandled ''/admin#projects'')))"

definition delete_project ::
  "world \<Rightarrow> server \<Rightarrow> portfolio \<Rightarrow> string \<Rightarrow> server \<times> response" where
  "delete_project w s d projectId =
     (case findIndex (\<lambda>p. strict_eq (project_id p) projectId) (projects d) of
        None \<Rightarrow> (s, Redirect ''/admin#projects'')
      | Some projectIndex \<Rightarrow>
          let s1 = foldl (\<lambda>st imgUrl. deleteCloudinaryAsset (extractPublicId (Some imgUrl)) st)
                     s (images (projects d ! projectIndex));
              d' = d\<lparr>projects := splice1 projectIndex (projects d)\<rparr>
          in save_reload_redirect w (hold d' s1) Unhandled ''/admin#projects'')"

definition upload_certificate ::
  "world \<Rightarrow> server \<Rightarrow> portfolio \<Rightarrow> upload_result \<Rightarrow> jstext \<Rightarrow> jstext \<Rightarrow> server \<times> response"
  where
  "upload_certificate w s d up title iss =
     (if up = UploadError
      then (s, upload_failed ''Certificate upload failed. Check server log.'')
      else
        let s0 = single up s in
        case req_file up of
          None \<Rightarrow> (s0, Redirect ''/admin#certificates'')
        | Some p \<Rightarrow>
            let d' = d\<lparr>certificates := certificates d @
                        [\<lparr>cert_id = JStr (uuid w), cert_title = title, issuer = iss,
                          pdfUrl = Some p\<rparr>]\<rparr>
            in save_reload_redirect w (hold d' s0) Unhandled ''/admin#certificates'')"

definition db_failed :: response where
  "db_failed = Send 500 ''Database save failed after successful file upload.''"

definition upload_gallery ::
  "world \<Rightarrow> server \<Rightarrow> portfolio \<Rightarrow> upload_result \<Rightarrow> jstext \<Rightarrow> server \<times> response" where
  "upload_gallery w s d up capt =
     (if up = UploadError
      then (s, upload_failed ''Gallery photo upload failed. Check server log.'')
      else
        let s0 = single up s in
        case req_file up of
          None \<Rightarrow> (s0, Redirect ''/admin#gallery'')
        | Some p \<Rightarrow>
            let d' = d\<lparr>gallery := gallery d @
                        [\<lparr>photo_id = JStr (uuid w), url = Some p, caption = capt\<rparr>]\<rparr>
            in save_reload_redirect w (hold d' s0) db_failed ''/admin#gallery'')"

definition update_gallery_photo ::
  "world \<Rightarrow> server \<Rightarrow> portfolio \<Rightarrow> string \<Rightarrow> upload_result \<Rightarrow> server \<times> response" where
  "update_gallery_photo w s d photoId up =
     (if up = UploadError
      then (s, upload_failed ''Gallery photo replacement failed. Check server log.'')
      else
        let s0 = single up s in
        case findIndex (\<lambda>p. loose_eq (photo_id p) photoId) (gallery d) of
          None \<Rightarrow> (s0, Redirect ''/admin#gallery'')
        | Some i \<Rightarrow>
            (case req_file up of
               None \<Rightarrow> (s0, Redirect ''/admin#gallery'')
             | Some p \<Rightarrow>
                 let ph = gallery d ! i;
                     s1 = deleteCloudinaryAsset (extractPublicId (url ph)) s0;
                     d' = d\<lparr>gallery := (gallery d)[i := ph\<lparr>url := Some p\<rparr>]\<rparr>
                 in save_reload_redirect w (hold d' s1) db_failed ''/admin#gallery''))"

definition delete_certificate ::
  "world \<Rightarrow> server \<Rightarrow> portfolio \<Rightarrow> string \<Rightarrow> server \<times> response" where
  "delete_certificate w s d certId =
     (case findIndex (\<lambda>c. loose_eq (cert_id c) certId) (certificates d) of
        None \<Rightarrow> (s, Redirect ''/admin#certificates'')
      | Some certIndex \<Rightarrow>
          let s1 = deleteCloudinaryAsset
                     (extractPublicId (pdfUrl (certificates d ! certIndex))) s;
              d' = d\<lparr>certificates := splice1 certIndex (certificates d)\<rparr>
          in save_reload_redirect w (hold d' s1) Unhandled ''/admin#certificates'')"

definition delete_gallery_photo ::
  "world \<Rightarrow> server \<Rightarrow> portfolio \<Rightarrow> string \<Rightarrow> server \<times> response" where
  "delete_gallery_photo w s d photoId =
     (case findIndex (\<lambda>p. loose_eq (photo_id p) photoId) (gallery d) of
        None \<Rightarrow> (s, Redirect ''/admin#gallery'')
      | Some photoIndex \<Rightarrow>
          let s1 = deleteCloudinaryAsset (extractPublicId (url (gallery d ! photoIndex))) s;
              d' = d\<lparr>gallery := splice1 photoIndex (gallery d)\<rparr>
          in save_reload_redirect w (hold d' s1) Unhandled ''/admin#gallery'')"

definition add_education ::
  "world \<Rightarrow> server \<Rightarrow> portfolio \<Rightarrow> upload_result \<Rightarrow> jstext \<Rightarrow> jstext \<Rightarrow> jstext \<Rightarrow>
   server \<times> response" where
  "add_education w s d up title inst yrs =
     (if up = UploadError
      then (s, upload_failed ''Education logo upload failed. Check server log.'')
      else
        let s0 = single up s in
        case req_file up of
          None \<Rightarrow> (s0, Redirect ''/admin#general'')
        | Some p \<Rightarrow>
            let d' = d\<lparr>education := education d @
                        [\<lparr>edu_id = JStr (uuid w), imageUrl = Some p, edu_title = title,
                          institution = inst, years = yrs\<rparr>]\<rparr>
            in save_reload_redirect w (hold d' s0) Unhandled ''/admin#general'')"

text \<open>The index \<open>delete-education\<close> settles on: the first entry whose \<open>id\<close> equals the
  identifier under \<open>==\<close>, else the identifier read as a position in range.\<close>

definition eduIndex :: "education_entry list \<Rightarrow> string \<Rightarrow> nat option" where
  "eduIndex edu identifier =
     (case findIndex (\<lambda>e. loose_eq (edu_id e) identifier) edu of
        Some i \<Rightarrow> Some i
      | None \<Rightarrow>
          (case parseInt identifier of
             None \<Rightarrow> None
           | Some indexAsNumber \<Rightarrow>
               if 0 \<le> indexAsNumber \<and> indexAsNumber < int (length edu)
               then Some (nat indexAsNumber) else None))"

definition delete_education ::
  "world \<Rightarrow> server \<Rightarrow> portfolio \<Rightarrow> string \<Rightarrow> server \<times> response" where
  "delete_education w s d identifier =
     (case eduIndex (education d) identifier of
        None \<Rightarrow> (s, Redirect ''/admin#general'')
      | Some i \<Rightarrow>
          let s1 = deleteCloudinaryAsset (extractPublicId (imageUrl (education d ! i))) s;
              d' = d\<lparr>education := splice1 i (education d)\<rparr>
          in save_reload_redirect w (hold d' s1) Unhandled ''/admin#general'')"

text \<open>\<open>update-text\<close> assigns two fields and then calls \<open>aboutSkills.split\<close>, which
  throws when the form field is absent: the two assignments stay, nothing is saved.\<close>

definition update_text ::
  "world \<Rightarrow> server \<Rightarrow> portfolio \<Rightarrow> jstext \<Rightarrow> jstext \<Rightarrow> jstext \<Rightarrow> server \<times> response" where
  "update_text w s d aboutSummary aboutFull aboutSkills =
     (let d1 = d\<lparr>about := (about d)\<lparr>summary := aboutSummary, fullStory := aboutFull\<rparr>\<rparr> in
      case aboutSkills of
        None \<Rightarrow> (hold d1 s, Unhandled)
      | Some sk \<Rightarrow>
          let d' = d1\<lparr>about := (about d1)
                     \<lparr>skills := filter (\<lambda>x. 0 < length x) (map trim (split (CHR 0x0A) sk))\<rparr>\<rparr>
          in save_redirect w (hold d' s) Unhandled ''/admin#general'')"

definition add_project ::
  "world \<Rightarrow> server \<Rightarrow> portfolio \<Rightarrow> jstext \<Rightarrow> jstext \<Rightarrow> jstext \<Rightarrow> server \<times> response" where
  "add_project w s d title descr glink =
     (let d' = d\<lparr>projects := projects d @
                 [\<lparr>project_id = JStr (''proj'' @ uuid w), project_title = title,
                   description = descr, githubLink = glink, images = []\<rparr>]\<rparr>
      in save_redirect w (hold d' s) Unhandled ''/admin#projects'')"

definition update_project ::
  "world \<Rightarrow> server \<Rightarrow> portfolio \<Rightarrow> string \<Rightarrow> jstext \<Rightarrow> jstext \<Rightarrow> jstext \<Rightarrow>
   server \<times> response" where
  "update_project w s d projectId title descr glink =
     (case findIndex (\<lambda>p. strict_eq (project_id p) projectId) (projects d) of
        None \<Rightarrow> (s, Redirect ''/admin#projects'')
      | Some i \<Rightarrow>
          let pr = projects d ! i;
              d' = d\<lparr>projects := (projects d)
                     [i := pr\<lparr>project_title := title, description := descr,
                              githubLink := glink\<rparr>]\<rparr>
          in save_redirect w (hold d' s) Unhandled ''/admin#projects'')"

definition update_gallery_caption ::
  "world \<Rightarrow> server \<Rightarrow> portfolio \<Rightarrow> string \<Rightarrow> jstext \<Rightarrow> server \<times> response" where
  "update_gallery_caption w s d photoId capt =
     (case findIndex (\<lambda>p. loose_eq (photo_id p) photoId) (gallery d) of
        None \<Rightarrow> (s, Redirect ''/admin#gallery'')
      | Some i \<Rightarrow>
          let d' = d\<lparr>gallery := (gallery d)[i := (gallery d ! i)\<lparr>caption := capt\<rparr>]\<rparr>
          in save_redirect w (hold d' s) Unhandled ''/admin#gallery'')"

text \<open>\<open>update-footer\<close> runs inside \<open>try\<close>; its \<open>catch\<close> redirects like the success
  path does.\<close>

definition empty_footer :: footer_info where
  "empty_footer = \<lparr>footer_name = None, line1 = None, line2 = None, footer_githubLink = None,
                   emailLink = None, phoneLink = None, linkedinLink = None\<rparr>"

definition update_footer ::
  "world \<Rightarrow> server \<Rightarrow> portfolio \<Rightarrow> footer_info \<Rightarrow> server \<times> response" where
  "update_footer w s d body =
     (let f0 = (case footerInfo d of None \<Rightarrow> empty_footer | Some f \<Rightarrow> f);
          f' = f0\<lparr>footer_name := footer_name body, line1 := line1 body, line2 := line2 body,
                  footer_githubLink := footer_githubLink body, emailLink := emailLink body,
                  phoneLink := phoneLink body, linkedinLink := linkedinLink body\<rparr>;
          d' = d\<lparr>footerInfo := Some f'\<rparr>
      in save_redirect w (hold d' s) (Redirect ''/admin#general'') ''/admin#general'')"

subsection \<open>Requests and the middleware in front of the handlers\<close>

datatype request =
    UpdateCarousel string upload_result jstext jstext jstext jstext
  | UploadPhoto upload_result
  | UpdateProjectSummary upload_result jstext jstext jstext jstext
  | UploadProjectImage string upload_result
  | DeleteProjectImage string jstext
  | DeleteProject string
  | UploadCertificate upload_result jstext jstext
  | UploadGallery upload_result jstext
  | UpdateGalleryPhoto string upload_result
  | DeleteCertificate string
  | DeleteGalleryPhoto string
  | AddEducation upload_result jstext jstext jstext
  | DeleteEducation string
  | UpdateText jstext jstext jstext
  | AddProject jstext jstext jstext
  | UpdateProject string jstext jstext jstext
  | UpdateGalleryCaption string jstext
  | UpdateFooter footer_info

fun route :: "world \<Rightarrow> server \<Rightarrow> portfolio \<Rightarrow> request \<Rightarrow> server \<times> response" where
  "route w s d (UpdateCarousel idx up t de l b) = update_carousel w s d idx up t de l b"
| "route w s d (UploadPhoto up) = upload_photo w s d up"
| "route w s d (UpdateProjectSummary up t p1 p2 b) = update_project_summary w s d up t p1 p2 b"
| "route w s d (UploadProjectImage pid up) = upload_project_image w s d pid up"
| "route w s d (DeleteProjectImage pid u) = delete_project_image w s d pid u"
| "route w s d (DeleteProject pid) = delete_project w s d pid"
| "route w s d (UploadCertificate up t i) = upload_certificate w s d up t i"
| "route w s d (UploadGallery up c) = upload_gallery w s d up c"
| "route w s d (UpdateGalleryPhoto pid up) = update_gallery_photo w s d pid up"
| "route w s d (DeleteCertificate cid) = delete_certificate w s d cid"
| "route w s d (DeleteGalleryPhoto pid) = delete_gallery_photo w s d pid"
| "route w s d (AddEducation up t i y) = add_education w s d up t i y"
| "route w s d (DeleteEducation ident) = delete_education w s d ident"
| "route w s d (UpdateText a b c) = update_text w s d a b c"
| "route w s d (AddProject t de g) = add_project w s d t de g"
| "route w s d (UpdateProject pid t de g) = update_project w s d pid t de g"
| "route w s d (UpdateGalleryCaption pid c) = update_gallery_caption w s d pid c"
| "route w s d (UpdateFooter body) = update_footer w s d body"

text \<open>\<open>ensureDataLoaded\<close> runs first for every request, then \<open>isAuthenticated\<close>, then
  the route's handler.\<close>

definition handle :: "world \<Rightarrow> server \<Rightarrow> request \<Rightarrow> server \<times> response" where
  "handle w s r =
     (case portfolioData s of
        None \<Rightarrow> (s, Send 503 ''Service Unavailable. Data not loaded.'')
      | Some d \<Rightarrow> if isLoggedIn s then route w s d r else (s, Redirect ''/login''))"

section \<open>Vocabulary of the properties\<close>

text \<open>The asset-store calls one invocation of \<^const>\<open>deleteCloudinaryAsset\<close> and one
  run of the upload middleware make.\<close>

definition destroy_calls :: "string option \<Rightarrow> event list" where
  "destroy_calls publicId =
     (case publicId of None \<Rightarrow> [] | Some pid \<Rightarrow> if pid = [] then [] else [Destroy pid])"

definition upload_calls :: "upload_result \<Rightarrow> event list" where
  "upload_calls up = (case up of Uploaded p \<Rightarrow> [Upload p] | _ \<Rightarrow> [])"

text \<open>Every asset reference of the document, in document order.\<close>

definition asset_urls :: "portfolio \<Rightarrow> jstext list" where
  "asset_urls d =
     map slide_url (carousel d) @ [photoUrl (about d), ps_image (projectSummary d)] @
     map imageUrl (education d) @ map pdfUrl (certificates d) @ map url (gallery d) @
     map Some (concat (map images (projects d)))"

text \<open>What the upload middleware handed to the handler, for the routes that have one.\<close>

fun upload_of :: "request \<Rightarrow> upload_result option" where
  "upload_of (UpdateCarousel idx up t de l b) = Some up"
| "upload_of (UploadPhoto up) = Some up"
| "upload_of (UpdateProjectSummary up t p1 p2 b) = Some up"
| "upload_of (UploadProjectImage pid up) = Some up"
| "upload_of (UploadCertificate up t i) = Some up"
| "upload_of (UploadGallery up c) = Some up"
| "upload_of (UpdateGalleryPhoto pid up) = Some up"
| "upload_of (AddEducation up t i y) = Some up"
| "upload_of _ = None"

text \<open>The message each of these routes puts into the query string when its upload is
  rejected.\<close>

fun upload_error_message :: "request \<Rightarrow> string" where
  "upload_error_message (UpdateCarousel idx up t de l b) =
     ''Carousel upload failed. Check server log.''"
| "upload_error_message (UploadPhoto up) = ''Profile photo upload failed. Check server log.''"
| "upload_error_message (UpdateProjectSummary up t p1 p2 b) =
     ''Project summary image upload failed. Check server log.''"
| "upload_error_message (UploadProjectImage pid up) =
     ''Project image upload failed. Check server log.''"
| "upload_error_message (UploadCertificate up t i) =
     ''Certificate upload failed. Check server log.''"
| "upload_error_message (UploadGallery up c) = ''Gallery photo upload failed. Check server log.''"
| "upload_error_message (UpdateGalleryPhoto pid up) =
     ''Gallery photo replacement failed. Check server log.''"
| "upload_error_message (AddEducation up t i y) =
     ''Education logo upload failed. Check server log.''"
| "upload_error_message _ = []"

subsection \<open>A small site to run the handlers on\<close>

definition demo_slide :: "string \<Rightarrow> slide" where
  "demo_slide u =
     \<lparr>slide_title = Some ''Welcome'', slide_description = Some ''Hello'',
      slide_link = Some ''/projects'', slide_buttonText = Some ''More'', slide_url = Some u\<rparr>"

definition demo_photo :: photo where
  "demo_photo =
     \<lparr>photo_id = JStr ''g1'',
      url = Some ''https://res.cloudinary.com/demo/image/upload/v1712/portfolio/Gallery/abc.jpg'',
      caption = Some ''old''\<rparr>"

definition demo_project :: project where
  "demo_project =
     \<lparr>project_id = JStr ''proj1'', project_title = Some ''Site'', description = Some ''A site'',
      githubLink = None,
      images = [''https://res.cloudinary.com/demo/image/upload/v1/portfolio/Project/a.png'',
                ''https://res.cloudinary.com/demo/image/upload/v1/portfolio/Project/b.png'']\<rparr>"

definition demo_edu :: "jsval \<Rightarrow> string \<Rightarrow> education_entry" where
  "demo_edu i t =
     \<lparr>edu_id = i, imageUrl = Some ''/images/school.png'', edu_title = Some t,
      institution = Some ''School'', years = Some ''2019''\<rparr>"

definition demo_doc :: portfolio where
  "demo_doc =
     \<lparr>carousel = [demo_slide ''/images/slide.jpg'', demo_slide ''/images/slide.jpg'',
                  demo_slide ''/images/third.jpg''],
      about = \<lparr>summary = Some ''s'', fullStory = Some ''f'', skills = [''HTML''],
               photoUrl = Some ''/images/me.jpg''\<rparr>,
      projectSummary = \<lparr>ps_title = None, paragraph1 = None, paragraph2 = None,
                        buttonLink = None, ps_image = None\<rparr>,
      education = [demo_edu JUndefined ''BSc'', demo_edu (JStr ''0'') ''MSc'',
                   demo_edu (JNum 7) ''PhD''],
      certificates = [],
      gallery = [demo_photo],
      projects = [demo_project],
      footerInfo = None\<rparr>"

definition demo_server :: server where
  "demo_server = \<lparr>portfolioData = Some demo_doc, db = Some demo_doc, isLoggedIn = True, trace = []\<rparr>"

definition calm :: world where
  "calm = \<lparr>save_fails = False, find_fails = False, uuid = ''3f2a''\<rparr>"

definition store_down :: world where
  "store_down = \<lparr>save_fails = True, find_fails = False, uuid = ''3f2a''\<rparr>"

definition raw_certificate :: certificate where
  "raw_certificate =
     \<lparr>cert_id = JStr ''c1'', cert_title = Some ''Notes'', issuer = Some ''School'',
      pdfUrl = Some ''https://res.cloudinary.com/demo/raw/upload/v1712/portfolio/Pdf/notes''\<rparr>"

definition plain_project :: project where
  "plain_project = demo_project\<lparr>images := [''A'', ''B'']\<rparr>"

definition string5_project :: project where
  "string5_project = \<lparr>project_id = JStr ''5'', project_title = Some ''Newer'',
                      description = None, githubLink = None, images = []\<rparr>"

definition new_slide_url :: string where
  "new_slide_url = ''https://res.cloudinary.com/demo/image/upload/v9/portfolio/Carousel/new.jpg''"

definition demo_footer :: footer_info where
  "demo_footer = \<lparr>footer_name = Some ''R'', line1 = Some ''a'', line2 = Some ''b'',
                   footer_githubLink = None, emailLink = None, phoneLink = None,
                   linkedinLink = None\<rparr>"

definition legacy_project :: project where
  "legacy_project = \<lparr>project_id = JNum 5, project_title = Some ''Old'', description = None,
                     githubLink = None, images = [''/images/old.png'']\<rparr>"

definition demo_gallery_added :: portfolio where
  "demo_gallery_added =
     demo_doc\<lparr>gallery := [demo_photo,
        \<lparr>photo_id = JStr ''3f2a'', url = Some new_slide_url, caption = Some ''Sunset''\<rparr>]\<rparr>"

definition shared_gallery :: portfolio where
  "shared_gallery = demo_doc\<lparr>gallery := [demo_photo, demo_photo\<lparr>photo_id := JStr ''g2''\<rparr>]\<rparr>"

lemmas js_defs = is_digit_def is_line_terminator_def is_white_space_def trim_start_def trim_def
  digit_value_def is_radix_digit_def radix_value_def has_prefix0_def parseInt_def
  StringToNumber_def StrUnsignedDecimalLiteral_def ExponentPart_def NonDecimalIntegerLiteral_def
  negate_def number_is_def indexOf_def splice1_def

lemmas num_defs = StringToNumber_def trim_def is_white_space_def has_prefix0_def
  StrUnsignedDecimalLiteral_def is_digit_def ExponentPart_def radix_value_def digit_value_def
  NonDecimalIntegerLiteral_def is_radix_digit_def negate_def
  number_is_def RoundMV_def round_ratio_def round_at_def significand_def
  binary_exponent_def round_half_even_def bit_length.simps Let_def

lemmas asset_defs = extractPublicId_def regex_match_def skip_version_def
  deleteCloudinaryAsset_def emit_def

lemmas demo_defs = demo_slide_def demo_photo_def demo_project_def demo_edu_def demo_doc_def
  demo_server_def calm_def store_down_def

lemmas handler_defs = update_carousel_def upload_photo_def update_project_summary_def
  upload_project_image_def delete_project_image_def delete_project_def upload_certificate_def
  upload_gallery_def update_gallery_photo_def delete_certificate_def delete_gallery_photo_def
  add_education_def delete_education_def update_text_def add_project_def update_project_def
  update_gallery_caption_def update_footer_def

section \<open>Lemmas about the primitives\<close>

text \<open>The abstract equality rounds the string to a double before it compares.\<close>

lemma loose_eq_rounds_to_double:
  "loose_eq (JNum 1) ''1.00000000000000001''"
  "loose_eq (JNum 9007199254740992) ''9007199254740993''"
  "\<not> loose_eq (JNum 1) ''1.0000000000000003''"
  "loose_eq (JNum 15) '' 1.50e1 ''"
  "loose_eq (JNum 26) ''0x1A''"
  by (simp_all add: num_defs)

lemma demo_number_ids:
  "loose_eq (JNum 7) ''7''" "\<not> loose_eq (JNum 7) ''0''" "\<not> loose_eq (JNum 7) ''1''"
  "\<not> loose_eq (JNum 7) ''3''" "\<not> loose_eq (JNum 7) ''msc''" "loose_eq (JNum 5) ''5''"
  "loose_eq (JNum 7) ''7.0000000000000001''"
  by (simp_all add: num_defs)

lemma after_first_leftmost:
  "m \<noteq> [] \<Longrightarrow> \<not> str_includes (pre @ butlast m) m \<Longrightarrow>
   after_first m (pre @ m @ rest) = Some rest"
proof (induction pre)
  case Nil
  then show ?case by (cases m) simp_all
next
  case (Cons c p)
  from Cons.prems have no_here: "take (length m) ((c # p) @ butlast m) \<noteq> m"
    and later: "\<not> str_includes (p @ butlast m) m"
    by simp_all
  have "m = butlast m @ [last m]" using Cons.prems(1) by simp
  then have "(c # p) @ m @ rest = ((c # p) @ butlast m) @ (last m # rest)"
    by (metis append_Cons append_Nil append_assoc)
  moreover have "length m \<le> length ((c # p) @ butlast m)" by simp
  ultimately have "take (length m) ((c # p) @ m @ rest) = take (length m) ((c # p) @ butlast m)"
    by (metis take_append diff_is_0_eq take_0 append_Nil2)
  with no_here have "take (length m) ((c # p) @ m @ rest) \<noteq> m"
    by simp
  then have "after_first m ((c # p) @ m @ rest) = after_first m (p @ m @ rest)"
    by simp
  with Cons.IH [OF Cons.prems(1) later] show ?case by simp
qed

lemma after_upload_leftmost:
  "\<not> str_includes (pre @ ''/upload'') ''/upload/'' \<Longrightarrow>
   after_first ''/upload/'' (pre @ ''/upload/'' @ rest) = Some rest"
  using after_first_leftmost [of "''/upload/''" pre rest] by simp

lemma skip_version_digits:
  "ds \<noteq> [] \<Longrightarrow> list_all is_digit ds \<Longrightarrow> skip_version (CHR ''v'' # ds @ CHR ''/'' # rest) = rest"
proof -
  assume ne: "ds \<noteq> []" and dg: "list_all is_digit ds"
  have nd: "\<not> is_digit (CHR ''/'')" by (simp add: is_digit_def)
  from dg have all: "\<forall>x\<in>set ds. is_digit x" by (simp add: list_all_iff)
  have tw: "takeWhile is_digit (ds @ CHR ''/'' # rest) = ds"
    using all nd by (simp add: takeWhile_append2)
  have dw: "dropWhile is_digit (ds @ CHR ''/'' # rest) = CHR ''/'' # rest"
    using all nd by (simp add: dropWhile_append2)
  show ?thesis using ne by (simp add: skip_version_def tw dw)
qed

lemma skip_version_other:
  "hd r \<noteq> CHR ''v'' \<Longrightarrow> skip_version r = r"
  by (cases r) (simp_all add: skip_version_def)

lemma lastIndexOf_absent: "c \<notin> set xs \<Longrightarrow> lastIndexOf xs c = None"
  by (induction xs) auto

lemma lastIndexOf_last_dot:
  "c \<notin> set ext \<Longrightarrow> lastIndexOf (path @ c # ext) c = Some (length path)"
  by (induction path) (simp_all add: lastIndexOf_absent)

lemma takeWhile_all: "\<forall>x\<in>set xs. P x \<Longrightarrow> takeWhile P xs = xs"
  by (induction xs) auto

lemma extractPublicId_shape:
  assumes store: "str_includes (pre @ ''/upload/'' @ ver @ path @ CHR ''.'' # ext) ''cloudinary.com''"
    and first: "\<not> str_includes (pre @ ''/upload'') ''/upload/''"
    and ver: "(ver = [] \<and> hd (path @ ''.'') \<noteq> CHR ''v'') \<or>
              (\<exists>ds. ver = CHR ''v'' # ds @ ''/'' \<and> ds \<noteq> [] \<and> list_all is_digit ds)"
    and ext: "CHR ''.'' \<notin> set ext"
    and lines: "list_all (\<lambda>c. \<not> is_line_terminator c) (path @ CHR ''.'' # ext)"
  shows "extractPublicId (Some (pre @ ''/upload/'' @ ver @ path @ CHR ''.'' # ext)) = Some path"
proof -
  let ?m = "path @ CHR ''.'' # ext"
  let ?u = "pre @ ''/upload/'' @ ver @ ?m"
  have au: "after_first ''/upload/'' ?u = Some (ver @ ?m)"
    using after_upload_leftmost [OF first] by simp
  have sv: "skip_version (ver @ ?m) = ?m"
  proof -
    from ver show ?thesis
    proof
      assume "ver = [] \<and> hd (path @ ''.'') \<noteq> CHR ''v''"
      then have "ver = []" and "hd ?m \<noteq> CHR ''v''" by (cases path; simp)+
      then show ?thesis by (simp add: skip_version_other)
    next
      assume "\<exists>ds. ver = CHR ''v'' # ds @ ''/'' \<and> ds \<noteq> [] \<and> list_all is_digit ds"
      then obtain ds where "ver = CHR ''v'' # ds @ ''/''" "ds \<noteq> []" "list_all is_digit ds"
        by blast
      then show ?thesis using skip_version_digits [of ds ?m] by simp
    qed
  qed
  have tw: "takeWhile (\<lambda>c. \<not> is_line_terminator c) ?m = ?m"
    using lines by (intro takeWhile_all) (simp add: list_all_iff)
  have rm: "regex_match ?u = Some ?m"
    by (simp only: regex_match_def au sv tw option.map)
  have li: "lastIndexOf ?m (CHR ''.'') = Some (length path)"
    using ext by (rule lastIndexOf_last_dot)
  have ne: "?u \<noteq> []" by simp
  show ?thesis
    unfolding extractPublicId_def using store
    by (simp only: option.case ne if_False if_True rm li) simp
qed

lemma extractPublicId_foreign:
  "fileUrl = None \<or> (\<exists>u. fileUrl = Some u \<and> \<not> str_includes u ''cloudinary.com'') \<Longrightarrow>
   extractPublicId fileUrl = None"
  by (auto simp: extractPublicId_def)

lemma deleteCloudinaryAsset_noop:
  "publicId = None \<or> publicId = Some [] \<Longrightarrow> deleteCloudinaryAsset publicId s = s"
  by (auto simp: deleteCloudinaryAsset_def)

section \<open>Lemmas about the handlers\<close>

lemma findIndex_None_iff: "findIndex p xs = None \<longleftrightarrow> (\<forall>x\<in>set xs. \<not> p x)"
  by (induction xs) auto

lemma findIndex_first:
  "i < length xs \<Longrightarrow> p (xs ! i) \<Longrightarrow> (\<forall>j<i. \<not> p (xs ! j)) \<Longrightarrow> findIndex p xs = Some i"
proof (induction xs arbitrary: i)
  case Nil
  then show ?case by simp
next
  case (Cons x xs)
  show ?case
  proof (cases i)
    case 0
    with Cons.prems show ?thesis by simp
  next
    case (Suc k)
    with Cons.prems have "\<not> p x" by auto
    moreover have "findIndex p xs = Some k"
    proof (rule Cons.IH)
      show "k < length xs" using Cons.prems Suc by simp
      show "p (xs ! k)" using Cons.prems Suc by simp
      show "\<forall>j<k. \<not> p (xs ! j)"
      proof (intro allI impI)
        fix j assume "j < k"
        then have "Suc j < i" using Suc by simp
        with Cons.prems(3) have "\<not> p ((x # xs) ! Suc j)" by blast
        then show "\<not> p (xs ! j)" by simp
      qed
    qed
    ultimately show ?thesis using Suc by simp
  qed
qed


lemma single_trace: "single up s = s\<lparr>trace := trace s @ upload_calls up\<rparr>"
  by (cases up) (simp_all add: single_def upload_calls_def emit_def)

lemma deleteCloudinaryAsset_trace:
  "deleteCloudinaryAsset p s = s\<lparr>trace := trace s @ destroy_calls p\<rparr>"
  by (cases p) (simp_all add: deleteCloudinaryAsset_def destroy_calls_def emit_def)

lemma save_redirect_hold:
  "save_redirect w (hold d' s1) err t =
     (if save_fails w
      then (s1\<lparr>portfolioData := Some d', trace := trace s1 @ [Save d']\<rparr>, err)
      else (s1\<lparr>portfolioData := Some d', db := Some d', trace := trace s1 @ [Save d']\<rparr>,
            Redirect t))"
  by (simp add: save_redirect_def save_def hold_def emit_def)

lemma save_reload_redirect_hold:
  "save_reload_redirect w (hold d' s1) err t =
     (if save_fails w
      then (s1\<lparr>portfolioData := Some d', trace := trace s1 @ [Save d']\<rparr>, err)
      else if find_fails w
      then (s1\<lparr>portfolioData := Some d', db := Some d',
               trace := trace s1 @ [Save d', FindById]\<rparr>, err)
      else (s1\<lparr>portfolioData := Some d', db := Some d',
               trace := trace s1 @ [Save d', FindById]\<rparr>, Redirect t))"
  by (simp add: save_reload_redirect_def save_def findById_def hold_def emit_def)

lemmas ending_simps = single_trace deleteCloudinaryAsset_trace save_redirect_hold
  save_reload_redirect_hold


lemma destroy_calls_only_Destroy [simp]:
  "Save d \<notin> set (destroy_calls p)" "FindById \<notin> set (destroy_calls p)"
  "Upload u \<notin> set (destroy_calls p)"
  by (cases p; simp add: destroy_calls_def)+

lemma upload_calls_only_Upload [simp]:
  "Save d \<notin> set (upload_calls up)" "FindById \<notin> set (upload_calls up)"
  "Destroy pid \<notin> set (upload_calls up)"
  by (cases up; simp add: upload_calls_def)+

lemma delete_all_trace:
  "foldl (\<lambda>st imgUrl. deleteCloudinaryAsset (extractPublicId (Some imgUrl)) st) s us =
     s\<lparr>trace := trace s @ concat (map (\<lambda>u. destroy_calls (extractPublicId (Some u))) us)\<rparr>"
  by (induction us arbitrary: s) (simp_all add: deleteCloudinaryAsset_trace)

lemma delete_all_only_Destroy [simp]:
  "Save d \<notin> set (concat (map (\<lambda>u. destroy_calls (extractPublicId (Some u))) us))"
  "FindById \<notin> set (concat (map (\<lambda>u. destroy_calls (extractPublicId (Some u))) us))"
  by (induction us) simp_all

lemma hold_trace: "trace (hold d s) = trace s"
  by (simp add: hold_def)

lemma count_list_update_away:
  "i < length xs \<Longrightarrow> xs ! i = a \<Longrightarrow> v \<noteq> a \<Longrightarrow>
   count_list (xs[i := v]) a = count_list xs a - 1"
proof (induction xs arbitrary: i)
  case Nil
  then show ?case by simp
next
  case (Cons x xs)
  show ?case
  proof (cases i)
    case 0
    with Cons.prems show ?thesis by simp
  next
    case (Suc k)
    with Cons.prems have ih: "count_list (xs[k := v]) a = count_list xs a - 1"
      by (intro Cons.IH) simp_all
    from Cons.prems Suc have "a \<in> set xs" by (metis nth_Cons_Suc nth_mem Suc_less_eq length_Cons)
    then have "0 < count_list xs a" by (metis count_list_0_iff gr0I)
    with ih Suc show ?thesis by simp
  qed
qed

lemma replaced_unreachable:
  assumes "i < length xs" and "xs ! i = a" and "v \<noteq> a"
    and "count_list (pre @ xs @ post) a = 1"
  shows "a \<notin> set (pre @ xs[i := v] @ post)"
proof -
  from assms(1,2) have "a \<in> set xs" by (metis nth_mem)
  then have pos: "0 < count_list xs a" by (metis count_list_0_iff gr0I)
  with assms(4) have "count_list pre a = 0" "count_list xs a = 1" "count_list post a = 0"
    by simp_all
  moreover have "count_list (xs[i := v]) a = count_list xs a - 1"
    using assms(1-3) by (rule count_list_update_away)
  ultimately have "count_list (pre @ xs[i := v] @ post) a = 0" by simp
  then show ?thesis by (metis count_list_0_iff)
qed

lemma gallery_url_replaced:
  assumes "i < length (gallery d)" and "url (gallery d ! i) = Some old" and "old \<noteq> new"
    and "count_list (asset_urls d) (Some old) = 1"
  shows "Some old \<notin> set (asset_urls (d\<lparr>gallery := (gallery d)[i := (gallery d ! i)\<lparr>url := Some new\<rparr>]\<rparr>))"
proof -
  let ?pre = "map slide_url (carousel d) @ [photoUrl (about d), ps_image (projectSummary d)] @
     map imageUrl (education d) @ map pdfUrl (certificates d)"
  let ?post = "map Some (concat (map images (projects d)))"
  let ?xs = "map url (gallery d)"
  have "Some old \<notin> set (?pre @ ?xs[i := Some new] @ ?post)"
  proof (rule replaced_unreachable)
    show "i < length ?xs" using assms(1) by simp
    show "?xs ! i = Some old" using assms(1,2) by simp
    show "Some new \<noteq> Some old" using assms(3) by simp
    show "count_list (?pre @ ?xs @ ?post) (Some old) = 1"
      using assms(4) by (simp add: asset_urls_def)
  qed
  then show ?thesis by (simp add: asset_urls_def map_update)
qed

lemma carousel_url_replaced:
  assumes "k < length (carousel d)" and "slide_url (carousel d ! k) = Some old" and "old \<noteq> new"
    and "count_list (asset_urls d) (Some old) = 1" and "slide_url sl = Some new"
  shows "Some old \<notin> set (asset_urls (d\<lparr>carousel := (carousel d)[k := sl]\<rparr>))"
proof -
  let ?post = "[photoUrl (about d), ps_image (projectSummary d)] @
     map imageUrl (education d) @ map pdfUrl (certificates d) @ map url (gallery d) @
     map Some (concat (map images (projects d)))"
  let ?xs = "map slide_url (carousel d)"
  have "Some old \<notin> set ([] @ ?xs[k := Some new] @ ?post)"
  proof (rule replaced_unreachable)
    show "k < length ?xs" using assms(1) by simp
    show "?xs ! k = Some old" using assms(1,2) by simp
    show "Some new \<noteq> Some old" using assms(3) by simp
    show "count_list ([] @ ?xs @ ?post) (Some old) = 1"
      using assms(4) by (simp add: asset_urls_def)
  qed
  then show ?thesis using assms(5) by (simp add: asset_urls_def map_update)
qed

lemma photoUrl_replaced:
  assumes "photoUrl (about d) = Some old" and "old \<noteq> new"
    and "count_list (asset_urls d) (Some old) = 1"
  shows "Some old \<notin> set (asset_urls (d\<lparr>about := (about d)\<lparr>photoUrl := Some new\<rparr>\<rparr>))"
proof -
  let ?pre = "map slide_url (carousel d)"
  let ?post = "map imageUrl (education d) @ map pdfUrl (certificates d) @ map url (gallery d) @
     map Some (concat (map images (projects d)))"
  let ?xs = "[photoUrl (about d), ps_image (projectSummary d)]"
  have "Some old \<notin> set (?pre @ ?xs[0 := Some new] @ ?post)"
  proof (rule replaced_unreachable)
    show "0 < length ?xs" by simp
    show "?xs ! 0 = Some old" using assms(1) by simp
    show "Some new \<noteq> Some old" using assms(2) by simp
    show "count_list (?pre @ ?xs @ ?post) (Some old) = 1"
      using assms(3) by (simp add: asset_urls_def)
  qed
  then show ?thesis by (simp add: asset_urls_def)
qed

lemma ps_image_replaced:
  assumes "ps_image (projectSummary d) = Some old" and "old \<noteq> new"
    and "count_list (asset_urls d) (Some old) = 1" and "ps_image ps = Some new"
  shows "Some old \<notin> set (asset_urls (d\<lparr>projectSummary := ps\<rparr>))"
proof -
  let ?pre = "map slide_url (carousel d)"
  let ?post = "map imageUrl (education d) @ map pdfUrl (certificates d) @ map url (gallery d) @
     map Some (concat (map images (projects d)))"
  let ?xs = "[photoUrl (about d), ps_image (projectSummary d)]"
  have "Some old \<notin> set (?pre @ ?xs[1 := Some new] @ ?post)"
  proof (rule replaced_unreachable)
    show "1 < length ?xs" by simp
    show "?xs ! 1 = Some old" using assms(1) by simp
    show "Some new \<noteq> Some old" using assms(2) by simp
    show "count_list (?pre @ ?xs @ ?post) (Some old) = 1"
      using assms(3) by (simp add: asset_urls_def)
  qed
  then show ?thesis using assms(4) by (simp add: asset_urls_def)
qed

lemma summary_overwritten:
  "ps\<lparr>ps_image := u, ps_title := t, paragraph1 := p1, paragraph2 := p2, buttonLink := b\<rparr> =
   \<lparr>ps_title = t, paragraph1 = p1, paragraph2 = p2, buttonLink = b, ps_image = u\<rparr>"
  by (cases ps) simp

lemma slide_overwritten:
  "sl\<lparr>slide_url := u, slide_title := t, slide_description := de, slide_link := l,
      slide_buttonText := b\<rparr> =
   \<lparr>slide_title = t, slide_description = de, slide_link = l, slide_buttonText = b,
    slide_url = u\<rparr>"
  by (cases sl) simp

section \<open>Asset deletion (C2)\<close>

text \<open>
  C2 says that the identifier of every asset URL is the path after the upload marker,
  without the version segment and without the file extension, and that only an absent
  or foreign URL makes the deletion a no-op. For a URL of the asset store with an
  extension that is what \<^const>\<open>extractPublicId\<close> gives (lemma
  \<open>extractPublicId_shape\<close>). For a URL of the asset store with no dot after the marker,
  \<open>lastIndexOf\<close> gives \<open>-1\<close> and \<open>substring(0, -1)\<close> the empty string: the identifier
  is empty where the claim has \<open>portfolio/Pdf/notes\<close>, so
  \<^const>\<open>deleteCloudinaryAsset\<close> returns at once. Deleting the certificate that holds
  such a URL removes the record, saves and reloads, and no \<open>Destroy\<close> call is made: the
  asset stays in the store. With the extension \<open>.pdf\<close> added the identifier is the one
  the claim names.
\<close>

theorem extensionless_store_url_is_not_deleted:
  "extractPublicId (pdfUrl raw_certificate) = Some [] \<and>
   handle calm (demo_server\<lparr>portfolioData := Some (demo_doc\<lparr>certificates := [raw_certificate]\<rparr>)\<rparr>)
       (DeleteCertificate ''c1'') =
     (demo_server\<lparr>portfolioData := Some (demo_doc\<lparr>certificates := []\<rparr>),
                  db := Some (demo_doc\<lparr>certificates := []\<rparr>),
                  trace := [Save (demo_doc\<lparr>certificates := []\<rparr>), FindById]\<rparr>,
      Redirect ''/admin#certificates'') \<and>
   extractPublicId
       (Some ''https://res.cloudinary.com/demo/raw/upload/v1712/portfolio/Pdf/notes.pdf'') =
     Some ''portfolio/Pdf/notes''"
proof -
  have empty: "extractPublicId (pdfUrl raw_certificate) = Some []"
    by (simp add: raw_certificate_def asset_defs is_digit_def is_line_terminator_def)
  have "handle calm (demo_server\<lparr>portfolioData := Some (demo_doc\<lparr>certificates := [raw_certificate]\<rparr>)\<rparr>)
       (DeleteCertificate ''c1'') =
     (demo_server\<lparr>portfolioData := Some (demo_doc\<lparr>certificates := []\<rparr>),
                  db := Some (demo_doc\<lparr>certificates := []\<rparr>),
                  trace := [Save (demo_doc\<lparr>certificates := []\<rparr>), FindById]\<rparr>,
      Redirect ''/admin#certificates'')"
    by (simp add: handle_def delete_certificate_def Let_def ending_simps destroy_calls_def empty
        splice1_def demo_server_def calm_def)
       (simp add: raw_certificate_def)
  moreover have "extractPublicId
       (Some ''https://res.cloudinary.com/demo/raw/upload/v1712/portfolio/Pdf/notes.pdf'') =
     Some ''portfolio/Pdf/notes''"
    by (simp add: asset_defs is_digit_def is_line_terminator_def)
  ultimately show ?thesis using empty by simp
qed

section \<open>Replacing an asset (C3)\<close>

text \<open>
  C3, as amended. For a logged-in admin and a loaded document, take a request that
  replaces an asset reference with a newly uploaded file: \<open>update-gallery-photo\<close> on the
  first photo whose \<open>id\<close> equals the parameter under \<open>==\<close>, \<open>update-carousel\<close> on a
  position in range, \<open>upload-photo\<close>, or \<open>update-project-summary\<close>. The deletion of the
  old URL's asset (one \<open>Destroy\<close> call when the old URL gives an identifier) follows the
  upload and comes before the save that installs the new URL, and the held document
  afterwards is the old one with the new URL in that field (and, for the slide and the
  summary, the submitted texts). The old URL is then no longer among the asset
  references of the document, provided it differs from the new URL and the replaced
  field was the only asset reference holding it.
\<close>

theorem asset_replacement_deletes_old_first:
  assumes "isLoggedIn s" and "portfolioData s = Some d"
  shows
    "(i < length (gallery d) \<and> loose_eq (photo_id (gallery d ! i)) photoId \<and>
      (\<forall>j<i. \<not> loose_eq (photo_id (gallery d ! j)) photoId)
      \<longrightarrow> portfolioData (fst (handle w s (UpdateGalleryPhoto photoId (Uploaded new)))) =
            Some (d\<lparr>gallery := (gallery d)[i := (gallery d ! i)\<lparr>url := Some new\<rparr>]\<rparr>) \<and>
          (\<exists>rest. trace (fst (handle w s (UpdateGalleryPhoto photoId (Uploaded new)))) =
             trace s @ [Upload new] @ destroy_calls (extractPublicId (url (gallery d ! i))) @
             Save (d\<lparr>gallery := (gallery d)[i := (gallery d ! i)\<lparr>url := Some new\<rparr>]\<rparr>) # rest) \<and>
          (url (gallery d ! i) = Some old \<and> old \<noteq> new \<and>
           count_list (asset_urls d) (Some old) = 1
           \<longrightarrow> Some old \<notin> set (asset_urls
                  (d\<lparr>gallery := (gallery d)[i := (gallery d ! i)\<lparr>url := Some new\<rparr>]\<rparr>))))
     \<and>
     (parseInt idx = Some n \<and> 0 \<le> n \<and> n < int (length (carousel d))
      \<longrightarrow> portfolioData (fst (handle w s
              (UpdateCarousel idx (Uploaded new) title descr link buttonText))) =
            Some (d\<lparr>carousel := (carousel d)
                   [nat n := \<lparr>slide_title = title, slide_description = descr, slide_link = link,
                              slide_buttonText = buttonText, slide_url = Some new\<rparr>]\<rparr>) \<and>
          (\<exists>rest. trace (fst (handle w s
              (UpdateCarousel idx (Uploaded new) title descr link buttonText))) =
             trace s @ [Upload new] @
             destroy_calls (extractPublicId (slide_url (carousel d ! nat n))) @
             Save (d\<lparr>carousel := (carousel d)
                   [nat n := \<lparr>slide_title = title, slide_description = descr, slide_link = link,
                              slide_buttonText = buttonText, slide_url = Some new\<rparr>]\<rparr>) # rest) \<and>
          (slide_url (carousel d ! nat n) = Some old \<and> old \<noteq> new \<and>
           count_list (asset_urls d) (Some old) = 1
           \<longrightarrow> Some old \<notin> set (asset_urls
                  (d\<lparr>carousel := (carousel d)
                   [nat n := \<lparr>slide_title = title, slide_description = descr, slide_link = link,
                              slide_buttonText = buttonText, slide_url = Some new\<rparr>]\<rparr>))))
     \<and>
     (portfolioData (fst (handle w s (UploadPhoto (Uploaded new)))) =
        Some (d\<lparr>about := (about d)\<lparr>photoUrl := Some new\<rparr>\<rparr>) \<and>
      (\<exists>rest. trace (fst (handle w s (UploadPhoto (Uploaded new)))) =
         trace s @ [Upload new] @ destroy_calls (extractPublicId (photoUrl (about d))) @
         Save (d\<lparr>about := (about d)\<lparr>photoUrl := Some new\<rparr>\<rparr>) # rest) \<and>
      (photoUrl (about d) = Some old \<and> old \<noteq> new \<and>
       count_list (asset_urls d) (Some old) = 1
       \<longrightarrow> Some old \<notin> set (asset_urls (d\<lparr>about := (about d)\<lparr>photoUrl := Some new\<rparr>\<rparr>))))
     \<and>
     (portfolioData (fst (handle w s (UpdateProjectSummary (Uploaded new) title p1 p2 blink))) =
        Some (d\<lparr>projectSummary := \<lparr>ps_title = title, paragraph1 = p1, paragraph2 = p2,
                                     buttonLink = blink, ps_image = Some new\<rparr>\<rparr>) \<and>
      (\<exists>rest. trace (fst (handle w s (UpdateProjectSummary (Uploaded new) title p1 p2 blink))) =
         trace s @ [Upload new] @ destroy_calls (extractPublicId (ps_image (projectSummary d))) @
         Save (d\<lparr>projectSummary := \<lparr>ps_title = title, paragraph1 = p1, paragraph2 = p2,
                                     buttonLink = blink, ps_image = Some new\<rparr>\<rparr>) # rest) \<and>
      (ps_image (projectSummary d) = Some old \<and> old \<noteq> new \<and>
       count_list (asset_urls d) (Some old) = 1
       \<longrightarrow> Some old \<notin> set (asset_urls
              (d\<lparr>projectSummary := \<lparr>ps_title = title, paragraph1 = p1, paragraph2 = p2,
                                       buttonLink = blink, ps_image = Some new\<rparr>\<rparr>))))"
proof (intro conjI impI)
  assume h: "i < length (gallery d) \<and> loose_eq (photo_id (gallery d ! i)) photoId \<and>
      (\<forall>j<i. \<not> loose_eq (photo_id (gallery d ! j)) photoId)"
  then have fi: "findIndex (\<lambda>p. loose_eq (photo_id p) photoId) (gallery d) = Some i"
    by (intro findIndex_first) simp_all
  let ?d' = "d\<lparr>gallery := (gallery d)[i := (gallery d ! i)\<lparr>url := Some new\<rparr>]\<rparr>"
  show "portfolioData (fst (handle w s (UpdateGalleryPhoto photoId (Uploaded new)))) = Some ?d'"
    using assms fi
    by (simp add: handle_def update_gallery_photo_def Let_def ending_simps req_file_def)
  show "\<exists>rest. trace (fst (handle w s (UpdateGalleryPhoto photoId (Uploaded new)))) =
             trace s @ [Upload new] @ destroy_calls (extractPublicId (url (gallery d ! i))) @
             Save ?d' # rest"
    using assms fi
    by (simp add: handle_def update_gallery_photo_def Let_def ending_simps req_file_def
        upload_calls_def)
  show "Some old \<notin> set (asset_urls ?d')"
    if "url (gallery d ! i) = Some old \<and> old \<noteq> new \<and> count_list (asset_urls d) (Some old) = 1"
    using h that by (intro gallery_url_replaced) simp_all
next
  assume h: "parseInt idx = Some n \<and> 0 \<le> n \<and> n < int (length (carousel d))"
  let ?sl = "\<lparr>slide_title = title, slide_description = descr, slide_link = link,
              slide_buttonText = buttonText, slide_url = Some new\<rparr>"
  let ?d' = "d\<lparr>carousel := (carousel d)[nat n := ?sl]\<rparr>"
  show "portfolioData (fst (handle w s
          (UpdateCarousel idx (Uploaded new) title descr link buttonText))) = Some ?d'"
    using assms h
    by (simp add: handle_def update_carousel_def Let_def ending_simps req_file_def
        slide_overwritten)
  show "\<exists>rest. trace (fst (handle w s
              (UpdateCarousel idx (Uploaded new) title descr link buttonText))) =
             trace s @ [Upload new] @
             destroy_calls (extractPublicId (slide_url (carousel d ! nat n))) @ Save ?d' # rest"
    using assms h
    by (simp add: handle_def update_carousel_def Let_def ending_simps req_file_def
        upload_calls_def slide_overwritten)
  show "Some old \<notin> set (asset_urls ?d')"
    if "slide_url (carousel d ! nat n) = Some old \<and> old \<noteq> new \<and>
        count_list (asset_urls d) (Some old) = 1"
  proof -
    from h have "nat n < length (carousel d)" by linarith
    with that show ?thesis by (intro carousel_url_replaced) simp_all
  qed
next
  show "portfolioData (fst (handle w s (UploadPhoto (Uploaded new)))) =
        Some (d\<lparr>about := (about d)\<lparr>photoUrl := Some new\<rparr>\<rparr>)"
    using assms by (simp add: handle_def upload_photo_def Let_def ending_simps req_file_def)
next
  show "\<exists>rest. trace (fst (handle w s (UploadPhoto (Uploaded new)))) =
         trace s @ [Upload new] @ destroy_calls (extractPublicId (photoUrl (about d))) @
         Save (d\<lparr>about := (about d)\<lparr>photoUrl := Some new\<rparr>\<rparr>) # rest"
    using assms
    by (simp add: handle_def upload_photo_def Let_def ending_simps req_file_def upload_calls_def)
next
  assume "photoUrl (about d) = Some old \<and> old \<noteq> new \<and>
       count_list (asset_urls d) (Some old) = 1"
  then show "Some old \<notin> set (asset_urls (d\<lparr>about := (about d)\<lparr>photoUrl := Some new\<rparr>\<rparr>))"
    by (intro photoUrl_replaced) simp_all
next
  show "portfolioData (fst (handle w s (UpdateProjectSummary (Uploaded new) title p1 p2 blink))) =
        Some (d\<lparr>projectSummary := \<lparr>ps_title = title, paragraph1 = p1, paragraph2 = p2,
                                     buttonLink = blink, ps_image = Some new\<rparr>\<rparr>)"
    using assms
    by (simp add: handle_def update_project_summary_def Let_def ending_simps req_file_def
        summary_overwritten)
next
  show "\<exists>rest. trace (fst (handle w s (UpdateProjectSummary (Uploaded new) title p1 p2 blink))) =
         trace s @ [Upload new] @ destroy_calls (extractPublicId (ps_image (projectSummary d))) @
         Save (d\<lparr>projectSummary := \<lparr>ps_title = title, paragraph1 = p1, paragraph2 = p2,
                                     buttonLink = blink, ps_image = Some new\<rparr>\<rparr>) # rest"
    using assms
    by (simp add: handle_def update_project_summary_def Let_def ending_simps req_file_def
        upload_calls_def summary_overwritten)
next
  assume "ps_image (projectSummary d) = Some old \<and> old \<noteq> new \<and>
       count_list (asset_urls d) (Some old) = 1"
  then show "Some old \<notin> set (asset_urls
              (d\<lparr>projectSummary := \<lparr>ps_title = title, paragraph1 = p1, paragraph2 = p2,
                                       buttonLink = blink, ps_image = Some new\<rparr>\<rparr>))"
    by (intro ps_image_replaced) simp_all
qed

theorem asset_replacement_deletes_old_first_witness:
  "portfolioData (fst (handle calm demo_server (UpdateGalleryPhoto ''g1'' (Uploaded new_slide_url)))) =
     Some (demo_doc\<lparr>gallery := [demo_photo\<lparr>url := Some new_slide_url\<rparr>]\<rparr>) \<and>
   (\<exists>rest. trace (fst (handle calm demo_server
       (UpdateGalleryPhoto ''g1'' (Uploaded new_slide_url)))) =
      [Upload new_slide_url, Destroy ''portfolio/Gallery/abc'',
       Save (demo_doc\<lparr>gallery := [demo_photo\<lparr>url := Some new_slide_url\<rparr>]\<rparr>)] @ rest) \<and>
   url demo_photo \<notin> set (asset_urls (demo_doc\<lparr>gallery := [demo_photo\<lparr>url := Some new_slide_url\<rparr>]\<rparr>))"
proof -
  have L: "isLoggedIn demo_server" "portfolioData demo_server = Some demo_doc"
    by (simp_all add: demo_server_def)
  note T = asset_replacement_deletes_old_first [OF L, where w = calm and i = 0
      and photoId = "''g1''" and new = new_slide_url
      and old = "''https://res.cloudinary.com/demo/image/upload/v1712/portfolio/Gallery/abc.jpg''",
      THEN conjunct1]
  have g: "gallery demo_doc = [demo_photo]" by (simp add: demo_doc_def)
  have hyp: "0 < length (gallery demo_doc) \<and> loose_eq (photo_id (gallery demo_doc ! 0)) ''g1'' \<and>
      (\<forall>j<0. \<not> loose_eq (photo_id (gallery demo_doc ! j)) ''g1'')"
    by (simp add: g demo_photo_def)
  have pid: "extractPublicId (url demo_photo) = Some ''portfolio/Gallery/abc''"
    by (simp add: demo_photo_def asset_defs is_digit_def is_line_terminator_def)
  have once: "url demo_photo =
       Some ''https://res.cloudinary.com/demo/image/upload/v1712/portfolio/Gallery/abc.jpg'' \<and>
     ''https://res.cloudinary.com/demo/image/upload/v1712/portfolio/Gallery/abc.jpg'' \<noteq> new_slide_url \<and>
     count_list (asset_urls demo_doc)
       (Some ''https://res.cloudinary.com/demo/image/upload/v1712/portfolio/Gallery/abc.jpg'') = 1"
    by (simp add: asset_urls_def demo_defs new_slide_url_def)
  have tr: "trace demo_server = []" by (simp add: demo_server_def)
  from T [rule_format, OF hyp] once pid show ?thesis
    by (simp add: g tr destroy_calls_def)
qed

theorem replaced_url_still_referenced:
  "portfolioData (fst (handle calm (demo_server\<lparr>portfolioData := Some shared_gallery\<rparr>)
      (UpdateGalleryPhoto ''g1'' (Uploaded new_slide_url)))) =
     Some (demo_doc\<lparr>gallery := [demo_photo\<lparr>url := Some new_slide_url\<rparr>,
                                  demo_photo\<lparr>photo_id := JStr ''g2''\<rparr>]\<rparr>) \<and>
   Destroy ''portfolio/Gallery/abc'' \<in> set (trace (fst (handle calm
      (demo_server\<lparr>portfolioData := Some shared_gallery\<rparr>)
      (UpdateGalleryPhoto ''g1'' (Uploaded new_slide_url))))) \<and>
   url demo_photo \<in> set (asset_urls
     (demo_doc\<lparr>gallery := [demo_photo\<lparr>url := Some new_slide_url\<rparr>,
                             demo_photo\<lparr>photo_id := JStr ''g2''\<rparr>]\<rparr>)) \<and>
   portfolioData (fst (handle calm demo_server
      (UpdateCarousel ''0'' (Uploaded new_slide_url) (Some ''T'') None None None))) =
     Some (demo_doc\<lparr>carousel :=
        [\<lparr>slide_title = Some ''T'', slide_description = None, slide_link = None,
          slide_buttonText = None, slide_url = Some new_slide_url\<rparr>,
         demo_slide ''/images/slide.jpg'', demo_slide ''/images/third.jpg'']\<rparr>) \<and>
   slide_url (carousel demo_doc ! 0) = Some ''/images/slide.jpg'' \<and>
   Some ''/images/slide.jpg'' \<in> set (asset_urls (demo_doc\<lparr>carousel :=
        [\<lparr>slide_title = Some ''T'', slide_description = None, slide_link = None,
          slide_buttonText = None, slide_url = Some new_slide_url\<rparr>,
         demo_slide ''/images/slide.jpg'', demo_slide ''/images/third.jpg'']\<rparr>))"
  by (simp add: handle_def update_gallery_photo_def update_carousel_def Let_def ending_simps
      req_file_def upload_calls_def destroy_calls_def asset_urls_def shared_gallery_def demo_defs
      js_defs asset_defs)

section \<open>Deleting an education entry (C4)\<close>



section \<open>Deleting a project image, twice (C5)\<close>

text \<open>
  C5, as amended. Let the only project be \<open>proj1\<close> with images \<open>[A, B]\<close>, \<open>A\<close> and \<open>B\<close>
  distinct and \<open>A\<close> not empty, and let the store accept the write and the read. Then
  \<open>delete-project-image/proj1\<close> with \<open>imageUrl = A\<close> leaves images \<open>[B]\<close> in the held and
  the stored document, and besides the save and the reload it makes the calls of one
  asset deletion for \<open>A\<close>: exactly one \<open>Destroy pid\<close> when \<open>A\<close> is a URL of the asset
  store with identifier \<open>pid\<close>, and none when \<open>A\<close> gives no identifier, as the string
  \<open>A\<close> itself or a local path does. The same request again, whatever the store does,
  leaves the server as the first request left it: no change and no call.
\<close>

theorem delete_project_image_once:
  assumes "isLoggedIn s" and "portfolioData s = Some d"
    and "projects d = [pr]" and "project_id pr = JStr ''proj1''" and "images pr = [A, B]"
    and "A \<noteq> B" and "A \<noteq> []" and "\<not> save_fails w" and "\<not> find_fails w"
  shows
    "handle w s (DeleteProjectImage ''proj1'' (Some A)) =
       (s\<lparr>portfolioData := Some (d\<lparr>projects := [pr\<lparr>images := [B]\<rparr>]\<rparr>),
          db := Some (d\<lparr>projects := [pr\<lparr>images := [B]\<rparr>]\<rparr>),
          trace := trace s @ destroy_calls (extractPublicId (Some A)) @
            [Save (d\<lparr>projects := [pr\<lparr>images := [B]\<rparr>]\<rparr>), FindById]\<rparr>,
        Redirect ''/admin#projects'') \<and>
     (extractPublicId (Some A) = Some pid \<and> pid \<noteq> []
      \<longrightarrow> destroy_calls (extractPublicId (Some A)) = [Destroy pid]) \<and>
     (extractPublicId (Some A) = None \<or> extractPublicId (Some A) = Some []
      \<longrightarrow> destroy_calls (extractPublicId (Some A)) = []) \<and>
     handle w' (fst (handle w s (DeleteProjectImage ''proj1'' (Some A))))
         (DeleteProjectImage ''proj1'' (Some A)) =
       (fst (handle w s (DeleteProjectImage ''proj1'' (Some A))), Redirect ''/admin#projects'')"
proof -
  let ?d1 = "d\<lparr>projects := [pr\<lparr>images := [B]\<rparr>]\<rparr>"
  let ?s1 = "s\<lparr>portfolioData := Some ?d1, db := Some ?d1,
               trace := trace s @ destroy_calls (extractPublicId (Some A)) @
                 [Save ?d1, FindById]\<rparr>"
  have first: "handle w s (DeleteProjectImage ''proj1'' (Some A)) =
      (?s1, Redirect ''/admin#projects'')"
    using assms
    by (simp add: handle_def delete_project_image_def indexOf_def splice1_def Let_def
        ending_simps)
  have second: "handle w' ?s1 (DeleteProjectImage ''proj1'' (Some A)) =
      (?s1, Redirect ''/admin#projects'')"
    using assms
    by (simp add: handle_def delete_project_image_def indexOf_def)
  have one: "destroy_calls (extractPublicId (Some A)) = [Destroy pid]"
    if "extractPublicId (Some A) = Some pid \<and> pid \<noteq> []"
    using that by (simp add: destroy_calls_def)
  have none: "destroy_calls (extractPublicId (Some A)) = []"
    if "extractPublicId (Some A) = None \<or> extractPublicId (Some A) = Some []"
    using that by (auto simp: destroy_calls_def)
  show ?thesis
    unfolding first fst_conv using second one none by simp
qed

theorem delete_project_image_once_witness:
  "handle calm demo_server (DeleteProjectImage ''proj1''
      (Some ''https://res.cloudinary.com/demo/image/upload/v1/portfolio/Project/a.png'')) =
     (demo_server
        \<lparr>portfolioData := Some (demo_doc\<lparr>projects := [demo_project\<lparr>images :=
            [''https://res.cloudinary.com/demo/image/upload/v1/portfolio/Project/b.png'']\<rparr>]\<rparr>),
         db := Some (demo_doc\<lparr>projects := [demo_project\<lparr>images :=
            [''https://res.cloudinary.com/demo/image/upload/v1/portfolio/Project/b.png'']\<rparr>]\<rparr>),
         trace := [Destroy ''portfolio/Project/a'',
                   Save (demo_doc\<lparr>projects := [demo_project\<lparr>images :=
            [''https://res.cloudinary.com/demo/image/upload/v1/portfolio/Project/b.png'']\<rparr>]\<rparr>),
                   FindById]\<rparr>,
      Redirect ''/admin#projects'') \<and>
   handle calm
     (fst (handle calm demo_server (DeleteProjectImage ''proj1''
        (Some ''https://res.cloudinary.com/demo/image/upload/v1/portfolio/Project/a.png''))))
     (DeleteProjectImage ''proj1''
        (Some ''https://res.cloudinary.com/demo/image/upload/v1/portfolio/Project/a.png'')) =
     (fst (handle calm demo_server (DeleteProjectImage ''proj1''
        (Some ''https://res.cloudinary.com/demo/image/upload/v1/portfolio/Project/a.png''))),
      Redirect ''/admin#projects'')"
proof -
  let ?A = "''https://res.cloudinary.com/demo/image/upload/v1/portfolio/Project/a.png''"
  let ?B = "''https://res.cloudinary.com/demo/image/upload/v1/portfolio/Project/b.png''"
  have pid: "extractPublicId (Some ?A) = Some ''portfolio/Project/a''"
    by (simp add: asset_defs is_digit_def is_line_terminator_def)
  have h: "isLoggedIn demo_server" "portfolioData demo_server = Some demo_doc"
    "projects demo_doc = [demo_project]" "project_id demo_project = JStr ''proj1''"
    "images demo_project = [?A, ?B]" "?A \<noteq> ?B" "?A \<noteq> []"
    "\<not> save_fails calm" "\<not> find_fails calm"
    by (simp_all add: demo_server_def demo_doc_def demo_project_def calm_def)
  have tr: "trace demo_server = []" by (simp add: demo_server_def)
  note T = delete_project_image_once [OF h, where w' = calm and pid = "''portfolio/Project/a''"]
  show ?thesis
  proof (rule conjI)
    show "handle calm demo_server (DeleteProjectImage ''proj1'' (Some ?A)) =
     (demo_server
        \<lparr>portfolioData := Some (demo_doc\<lparr>projects := [demo_project\<lparr>images := [?B]\<rparr>]\<rparr>),
         db := Some (demo_doc\<lparr>projects := [demo_project\<lparr>images := [?B]\<rparr>]\<rparr>),
         trace := [Destroy ''portfolio/Project/a'',
                   Save (demo_doc\<lparr>projects := [demo_project\<lparr>images := [?B]\<rparr>]\<rparr>),
                   FindById]\<rparr>,
      Redirect ''/admin#projects'')"
      using T [THEN conjunct1] T [THEN conjunct2, THEN conjunct1] pid by (simp add: tr)
    show "handle calm
       (fst (handle calm demo_server (DeleteProjectImage ''proj1'' (Some ?A))))
       (DeleteProjectImage ''proj1'' (Some ?A)) =
     (fst (handle calm demo_server (DeleteProjectImage ''proj1'' (Some ?A))),
      Redirect ''/admin#projects'')"
      by (rule T [THEN conjunct2, THEN conjunct2, THEN conjunct2])
  qed
qed

theorem delete_project_image_plain_url_no_destroy:
  "images plain_project = [''A'', ''B''] \<and> project_id plain_project = JStr ''proj1'' \<and>
   handle calm (demo_server\<lparr>portfolioData := Some (demo_doc\<lparr>projects := [plain_project]\<rparr>)\<rparr>)
       (DeleteProjectImage ''proj1'' (Some ''A'')) =
     (demo_server
        \<lparr>portfolioData := Some (demo_doc\<lparr>projects := [plain_project\<lparr>images := [''B'']\<rparr>]\<rparr>),
         db := Some (demo_doc\<lparr>projects := [plain_project\<lparr>images := [''B'']\<rparr>]\<rparr>),
         trace := [Save (demo_doc\<lparr>projects := [plain_project\<lparr>images := [''B'']\<rparr>]\<rparr>),
                   FindById]\<rparr>,
      Redirect ''/admin#projects'')"
  by (simp add: handle_def delete_project_image_def indexOf_def splice1_def Let_def ending_simps
      destroy_calls_def extractPublicId_def plain_project_def demo_project_def demo_server_def
      calm_def)

section \<open>Carousel positions out of range (C6)\<close>

text \<open>
  C6, as amended. For a logged-in admin and a loaded document, let the position of an
  \<open>update-carousel\<close> request be out of range: \<open>parseInt\<close> gives no number, or a negative
  one, or one that is not below the number of slides. Then the held document and the
  store are unchanged and nothing is deleted, saved or reloaded. The one call the asset
  store can receive is the upload of a file the request carries: the upload middleware
  has stored it before the handler looks at the position. The response is a redirect to
  \<open>/admin#carousel\<close>, or to the upload-error page when the upload was rejected.
  A position in range changes the slide at that position and no other.
\<close>

theorem carousel_position_out_of_range:
  assumes "isLoggedIn s" and "portfolioData s = Some d"
  shows
    "(parseInt idx = None \<or>
      (\<exists>m. parseInt idx = Some m \<and> (m < 0 \<or> int (length (carousel d)) \<le> m))
      \<longrightarrow> handle w s (UpdateCarousel idx up title descr link buttonText) =
            (case up of
               UploadError \<Rightarrow> (s, upload_failed ''Carousel upload failed. Check server log.'')
             | NoFile \<Rightarrow> (s, Redirect ''/admin#carousel'')
             | Uploaded p \<Rightarrow> (s\<lparr>trace := trace s @ [Upload p]\<rparr>, Redirect ''/admin#carousel'')))
     \<and>
     (parseInt idx = Some n \<and> 0 \<le> n \<and> n < int (length (carousel d)) \<and> up \<noteq> UploadError
      \<longrightarrow> (\<exists>sl. portfolioData (fst (handle w s (UpdateCarousel idx up title descr link buttonText)))
                  = Some (d\<lparr>carousel := (carousel d)[nat n := sl]\<rparr>)))"
proof (intro conjI impI)
  assume "parseInt idx = None \<or>
      (\<exists>m. parseInt idx = Some m \<and> (m < 0 \<or> int (length (carousel d)) \<le> m))"
  with assms show "handle w s (UpdateCarousel idx up title descr link buttonText) =
            (case up of
               UploadError \<Rightarrow> (s, upload_failed ''Carousel upload failed. Check server log.'')
             | NoFile \<Rightarrow> (s, Redirect ''/admin#carousel'')
             | Uploaded p \<Rightarrow> (s\<lparr>trace := trace s @ [Upload p]\<rparr>, Redirect ''/admin#carousel''))"
    by (cases up) (auto simp: handle_def update_carousel_def single_trace upload_calls_def)
next
  assume "parseInt idx = Some n \<and> 0 \<le> n \<and> n < int (length (carousel d)) \<and> up \<noteq> UploadError"
  with assms show "\<exists>sl. portfolioData (fst (handle w s (UpdateCarousel idx up title descr link buttonText)))
                  = Some (d\<lparr>carousel := (carousel d)[nat n := sl]\<rparr>)"
    by (cases up) (auto simp: handle_def update_carousel_def Let_def ending_simps req_file_def)
qed

theorem carousel_position_out_of_range_witness:
  "handle calm demo_server (UpdateCarousel ''5'' NoFile (Some ''T'') None None None) =
     (demo_server, Redirect ''/admin#carousel'') \<and>
   handle calm demo_server (UpdateCarousel ''-1'' (Uploaded new_slide_url) (Some ''T'') None None None) =
     (demo_server\<lparr>trace := [Upload new_slide_url]\<rparr>, Redirect ''/admin#carousel'') \<and>
   handle calm demo_server (UpdateCarousel ''last'' UploadError (Some ''T'') None None None) =
     (demo_server, upload_failed ''Carousel upload failed. Check server log.'') \<and>
   (\<exists>sl. portfolioData (fst (handle calm demo_server
              (UpdateCarousel ''2'' NoFile (Some ''T'') None None None))) =
          Some (demo_doc\<lparr>carousel := (carousel demo_doc)[2 := sl]\<rparr>))"
proof -
  have L: "isLoggedIn demo_server" "portfolioData demo_server = Some demo_doc"
    by (simp_all add: demo_server_def)
  note T = carousel_position_out_of_range [OF L, where w = calm and title = "Some ''T''"
      and descr = None and link = None and buttonText = None]
  have len: "length (carousel demo_doc) = 3" by (simp add: demo_doc_def)
  have tr: "trace demo_server = []" by (simp add: demo_server_def)
  have a: "handle calm demo_server (UpdateCarousel ''5'' NoFile (Some ''T'') None None None) =
     (demo_server, Redirect ''/admin#carousel'')"
    using T [where idx = "''5''" and up = NoFile] by (simp add: len js_defs)
  have b: "handle calm demo_server
       (UpdateCarousel ''-1'' (Uploaded new_slide_url) (Some ''T'') None None None) =
     (demo_server\<lparr>trace := [Upload new_slide_url]\<rparr>, Redirect ''/admin#carousel'')"
    using T [where idx = "''-1''" and up = "Uploaded new_slide_url"] by (simp add: len tr js_defs)
  have c: "handle calm demo_server (UpdateCarousel ''last'' UploadError (Some ''T'') None None None) =
     (demo_server, upload_failed ''Carousel upload failed. Check server log.'')"
    using T [where idx = "''last''" and up = UploadError] by (simp add: len js_defs)
  have d: "\<exists>sl. portfolioData (fst (handle calm demo_server
              (UpdateCarousel ''2'' NoFile (Some ''T'') None None None))) =
          Some (demo_doc\<lparr>carousel := (carousel demo_doc)[2 := sl]\<rparr>)"
    using T [where idx = "''2''" and up = NoFile and n = 2] by (simp add: len js_defs)
  from a b c d show ?thesis by blast
qed

theorem carousel_out_of_range_still_uploads:
  "length (carousel demo_doc) = 3 \<and> parseInt ''5'' = Some 5 \<and> trace demo_server = [] \<and>
   trace (fst (handle calm demo_server
     (UpdateCarousel ''5'' (Uploaded new_slide_url) (Some ''T'') None None None))) =
     [Upload new_slide_url]"
  by (simp add: demo_server_def demo_doc_def handle_def update_carousel_def single_def emit_def
      js_defs)

section \<open>Rejected uploads (C7)\<close>

text \<open>
  C7. For a logged-in admin and a loaded document, a request to any of the eight routes
  with an upload middleware whose upload was rejected leaves the server as it was (held
  document, store and trace: nothing is changed in memory and nothing is saved), and
  the response is a redirect to \<open>/admin?uploadError=\<close> followed by the route's message,
  URI-encoded.
\<close>

theorem rejected_upload_leaves_document:
  assumes "isLoggedIn s" and "portfolioData s = Some d" and "upload_of r = Some UploadError"
  shows "handle w s r =
           (s, Redirect (''/admin?uploadError='' @ encodeURIComponent (upload_error_message r)))"
  using assms
  by (cases r) (simp_all add: handle_def handler_defs upload_failed_def)

theorem rejected_upload_leaves_document_witness:
  "handle calm demo_server (UploadGallery UploadError (Some ''Sunset'')) =
     (demo_server,
      Redirect ''/admin?uploadError=Gallery%20photo%20upload%20failed.%20Check%20server%20log.'')"
proof -
  have h: "isLoggedIn demo_server" "portfolioData demo_server = Some demo_doc"
    "upload_of (UploadGallery UploadError (Some ''Sunset'')) = Some UploadError"
    by (simp_all add: demo_server_def)
  have "encodeURIComponent (upload_error_message (UploadGallery UploadError (Some ''Sunset''))) =
      ''Gallery%20photo%20upload%20failed.%20Check%20server%20log.''"
    by (simp add: encodeURIComponent_def encode_char_def is_unreserved_def percent_def
        hex_digit_def)
  with rejected_upload_leaves_document [OF h, of calm] show ?thesis by simp
qed

section \<open>A save that fails (C8)\<close>

text \<open>
  C8, as amended. Let the store reject the write, and let a request of a logged-in admin
  on a loaded document reach the save, handing document \<open>d'\<close> to the store. Then no
  reload is among the calls of the request, the store keeps the document it had, and the
  held reference is \<open>d'\<close>, ahead of the store. The response is the rejected promise
  left unhandled, except that \<open>upload-gallery\<close> and \<open>update-gallery-photo\<close> answer
  500 with a fixed message, and \<open>update-footer\<close> answers with the redirect it also
  gives on success.
\<close>

theorem persist_failure_keeps_change_without_reload:
  assumes "isLoggedIn s" and "portfolioData s = Some d" and "save_fails w"
    and "handle w s r = (s', resp)" and "trace s' = trace s @ evs" and "Save d' \<in> set evs"
  shows "FindById \<notin> set evs \<and> db s' = db s \<and> portfolioData s' = Some d' \<and>
         resp = (case r of
                   UpdateFooter _ \<Rightarrow> Redirect ''/admin#general''
                 | UploadGallery _ _ \<Rightarrow> db_failed
                 | UpdateGalleryPhoto _ _ \<Rightarrow> db_failed
                 | _ \<Rightarrow> Unhandled)"
proof (cases r)
  case (UpdateCarousel idx up t de l b)
  with assms show ?thesis
    by (auto simp: handle_def update_carousel_def Let_def ending_simps req_file_def
        split: if_splits option.splits upload_result.splits)
next
  case (UploadPhoto up)
  with assms show ?thesis
    by (auto simp: handle_def upload_photo_def Let_def ending_simps req_file_def
        split: if_splits option.splits upload_result.splits)
next
  case (UpdateProjectSummary up t p1 p2 b)
  with assms show ?thesis
    by (auto simp: handle_def update_project_summary_def Let_def ending_simps req_file_def
        split: if_splits option.splits upload_result.splits)
next
  case (UploadProjectImage pid up)
  with assms show ?thesis
    by (auto simp: handle_def upload_project_image_def Let_def ending_simps req_file_def
        split: if_splits option.splits upload_result.splits)
next
  case (DeleteProjectImage pid u)
  with assms show ?thesis
    by (auto simp: handle_def delete_project_image_def Let_def ending_simps
        split: if_splits option.splits)
next
  case (DeleteProject pid)
  with assms show ?thesis
    by (auto simp: handle_def delete_project_def Let_def save_reload_redirect_hold delete_all_trace
        split: if_splits option.splits)
next
  case (UploadCertificate up t i)
  with assms show ?thesis
    by (auto simp: handle_def upload_certificate_def Let_def ending_simps req_file_def
        split: if_splits option.splits upload_result.splits)
next
  case (UploadGallery up c)
  with assms show ?thesis
    by (auto simp: handle_def upload_gallery_def Let_def ending_simps req_file_def
        split: if_splits option.splits upload_result.splits)
next
  case (UpdateGalleryPhoto pid up)
  with assms show ?thesis
    by (auto simp: handle_def update_gallery_photo_def Let_def ending_simps req_file_def
        split: if_splits option.splits upload_result.splits)
next
  case (DeleteCertificate cid)
  with assms show ?thesis
    by (auto simp: handle_def delete_certificate_def Let_def ending_simps
        split: if_splits option.splits)
next
  case (DeleteGalleryPhoto pid)
  with assms show ?thesis
    by (auto simp: handle_def delete_gallery_photo_def Let_def ending_simps
        split: if_splits option.splits)
next
  case (AddEducation up t i y)
  with assms show ?thesis
    by (auto simp: handle_def add_education_def Let_def ending_simps req_file_def
        split: if_splits option.splits upload_result.splits)
next
  case (DeleteEducation ident)
  with assms show ?thesis
    by (auto simp: handle_def delete_education_def Let_def ending_simps
        split: if_splits option.splits)
next
  case (UpdateText a b c)
  with assms show ?thesis
    by (auto simp: handle_def update_text_def Let_def ending_simps hold_trace
        split: if_splits option.splits)
next
  case (AddProject t de g)
  with assms show ?thesis
    by (auto simp: handle_def add_project_def Let_def ending_simps)
next
  case (UpdateProject pid t de g)
  with assms show ?thesis
    by (auto simp: handle_def update_project_def Let_def ending_simps
        split: if_splits option.splits)
next
  case (UpdateGalleryCaption pid c)
  with assms show ?thesis
    by (auto simp: handle_def update_gallery_caption_def Let_def ending_simps
        split: if_splits option.splits)
next
  case (UpdateFooter body)
  with assms show ?thesis
    by (auto simp: handle_def update_footer_def Let_def ending_simps)
qed

theorem persist_failure_keeps_change_without_reload_witness:
  "handle store_down demo_server (UploadGallery (Uploaded new_slide_url) (Some ''Sunset'')) =
     (demo_server\<lparr>portfolioData := Some demo_gallery_added,
                  trace := [Upload new_slide_url, Save demo_gallery_added]\<rparr>, db_failed) \<and>
   FindById \<notin> set [Upload new_slide_url, Save demo_gallery_added] \<and>
   db (demo_server\<lparr>portfolioData := Some demo_gallery_added,
                   trace := [Upload new_slide_url, Save demo_gallery_added]\<rparr>) = Some demo_doc"
proof -
  let ?r = "UploadGallery (Uploaded new_slide_url) (Some ''Sunset'')"
  let ?s' = "demo_server\<lparr>portfolioData := Some demo_gallery_added,
                  trace := [Upload new_slide_url, Save demo_gallery_added]\<rparr>"
  have L: "isLoggedIn demo_server" "portfolioData demo_server = Some demo_doc"
    "save_fails store_down"
    by (simp_all add: demo_server_def store_down_def)
  have run: "handle store_down demo_server ?r = (?s', db_failed)"
    by (simp add: handle_def upload_gallery_def Let_def ending_simps req_file_def
        upload_calls_def demo_server_def store_down_def demo_gallery_added_def demo_doc_def)
  have tr: "trace ?s' = trace demo_server @ [Upload new_slide_url, Save demo_gallery_added]"
    by (simp add: demo_server_def)
  have mem: "Save demo_gallery_added \<in> set [Upload new_slide_url, Save demo_gallery_added]"
    by simp
  from persist_failure_keeps_change_without_reload [OF L run tr mem]
  have "FindById \<notin> set [Upload new_slide_url, Save demo_gallery_added]"
    and "db ?s' = db demo_server"
    by simp_all
  moreover have "db demo_server = Some demo_doc" by (simp add: demo_server_def)
  ultimately show ?thesis using run by simp
qed

theorem footer_persist_failure_redirects:
  "save_fails store_down \<and>
   handle store_down demo_server (UpdateFooter demo_footer) =
     (demo_server\<lparr>portfolioData := Some (demo_doc\<lparr>footerInfo := Some demo_footer\<rparr>),
                  trace := [Save (demo_doc\<lparr>footerInfo := Some demo_footer\<rparr>)]\<rparr>,
      Redirect ''/admin#general'') \<and>
   snd (handle calm demo_server (UpdateFooter demo_footer)) = Redirect ''/admin#general''"
  by (simp add: handle_def update_footer_def Let_def ending_simps demo_server_def store_down_def
      calm_def demo_doc_def demo_footer_def empty_footer_def)

section \<open>Updating a gallery caption (C9)\<close>

text \<open>
  C9. For a logged-in admin and a loaded document whose gallery is the one photo
  \<open>{id: "g1", url: U1, caption: "old"}\<close>, \<open>update-gallery-caption/g1\<close> with caption
  \<open>new\<close> leaves a held document that differs from the old one in that caption only
  (same \<open>id\<close>, same \<open>url\<close>, every other field of the document as before), and the only
  call it makes is the save: no upload and no deletion reaches the asset store. When the
  save succeeds the store holds the same document and the response is the redirect.
\<close>

theorem gallery_caption_update_frame:
  assumes "isLoggedIn s" and "portfolioData s = Some d"
    and "gallery d = [\<lparr>photo_id = JStr ''g1'', url = Some U1, caption = Some ''old''\<rparr>]"
  shows
    "portfolioData (fst (handle w s (UpdateGalleryCaption ''g1'' (Some ''new'')))) =
       Some (d\<lparr>gallery := [\<lparr>photo_id = JStr ''g1'', url = Some U1, caption = Some ''new''\<rparr>]\<rparr>) \<and>
     trace (fst (handle w s (UpdateGalleryCaption ''g1'' (Some ''new'')))) =
       trace s @ [Save (d\<lparr>gallery := [\<lparr>photo_id = JStr ''g1'', url = Some U1,
                                         caption = Some ''new''\<rparr>]\<rparr>)] \<and>
     (\<not> save_fails w \<longrightarrow>
        handle w s (UpdateGalleryCaption ''g1'' (Some ''new'')) =
          (s\<lparr>portfolioData :=
               Some (d\<lparr>gallery := [\<lparr>photo_id = JStr ''g1'', url = Some U1,
                                      caption = Some ''new''\<rparr>]\<rparr>),
             db := Some (d\<lparr>gallery := [\<lparr>photo_id = JStr ''g1'', url = Some U1,
                                          caption = Some ''new''\<rparr>]\<rparr>),
             trace := trace s @
               [Save (d\<lparr>gallery := [\<lparr>photo_id = JStr ''g1'', url = Some U1,
                                       caption = Some ''new''\<rparr>]\<rparr>)]\<rparr>,
           Redirect ''/admin#gallery''))"
  using assms by (simp add: handle_def update_gallery_caption_def Let_def ending_simps)

theorem gallery_caption_update_frame_witness:
  "portfolioData (fst (handle calm
       (demo_server\<lparr>portfolioData := Some (demo_doc\<lparr>gallery :=
          [\<lparr>photo_id = JStr ''g1'', url = Some ''U1'', caption = Some ''old''\<rparr>]\<rparr>)\<rparr>)
       (UpdateGalleryCaption ''g1'' (Some ''new'')))) =
     Some (demo_doc\<lparr>gallery := [\<lparr>photo_id = JStr ''g1'', url = Some ''U1'', caption = Some ''new''\<rparr>]\<rparr>) \<and>
   handle calm
       (demo_server\<lparr>portfolioData := Some (demo_doc\<lparr>gallery :=
          [\<lparr>photo_id = JStr ''g1'', url = Some ''U1'', caption = Some ''old''\<rparr>]\<rparr>)\<rparr>)
       (UpdateGalleryCaption ''g1'' (Some ''new'')) =
     (demo_server
        \<lparr>portfolioData := Some (demo_doc\<lparr>gallery :=
            [\<lparr>photo_id = JStr ''g1'', url = Some ''U1'', caption = Some ''new''\<rparr>]\<rparr>),
         db := Some (demo_doc\<lparr>gallery :=
            [\<lparr>photo_id = JStr ''g1'', url = Some ''U1'', caption = Some ''new''\<rparr>]\<rparr>),
         trace := [Save (demo_doc\<lparr>gallery :=
            [\<lparr>photo_id = JStr ''g1'', url = Some ''U1'', caption = Some ''new''\<rparr>]\<rparr>)]\<rparr>,
      Redirect ''/admin#gallery'')"
  using gallery_caption_update_frame
    [where s = "demo_server\<lparr>portfolioData := Some (demo_doc\<lparr>gallery :=
          [\<lparr>photo_id = JStr ''g1'', url = Some ''U1'', caption = Some ''old''\<rparr>]\<rparr>)\<rparr>"
       and d = "demo_doc\<lparr>gallery :=
          [\<lparr>photo_id = JStr ''g1'', url = Some ''U1'', caption = Some ''old''\<rparr>]\<rparr>"
       and ?U1.0 = "''U1''" and w = calm]
  by (simp add: demo_server_def calm_def)

section \<open>Project lookup is strict (C10)\<close>

text \<open>
  C10, as amended. Let a project have a number as its stored \<open>id\<close>, let the route
  parameter be a string which \<open>==\<close> equates with that number, and let no project have
  that very string as its \<open>id\<close>. Then the lookup by \<open>===\<close> that the four project routes
  use finds no project, although a lookup by \<open>==\<close> would find one; \<open>update-project\<close>,
  \<open>delete-project-image\<close> and \<open>delete-project\<close> leave the server as it was and
  redirect, and \<open>upload-project-image\<close> changes nothing in the document either (a file
  it carried has been uploaded and stays unreferenced). There is no positional fallback.
  A project whose \<open>id\<close> is the string itself is matched, whatever else the document
  holds.
\<close>

theorem project_lookup_is_strict:
  assumes "isLoggedIn s" and "portfolioData s = Some d"
    and "p \<in> set (projects d)" and "project_id p = JNum n" and "loose_eq (JNum n) pid"
    and "\<forall>q\<in>set (projects d). project_id q \<noteq> JStr pid"
  shows
    "findIndex (\<lambda>q. strict_eq (project_id q) pid) (projects d) = None \<and>
     findIndex (\<lambda>q. loose_eq (project_id q) pid) (projects d) \<noteq> None \<and>
     handle w s (UpdateProject pid title descr glink) = (s, Redirect ''/admin#projects'') \<and>
     handle w s (DeleteProjectImage pid imgUrl) = (s, Redirect ''/admin#projects'') \<and>
     handle w s (DeleteProject pid) = (s, Redirect ''/admin#projects'') \<and>
     handle w s (UploadProjectImage pid UploadError) =
       (s, upload_failed ''Project image upload failed. Check server log.'') \<and>
     handle w s (UploadProjectImage pid NoFile) = (s, Redirect ''/admin#projects'') \<and>
     handle w s (UploadProjectImage pid (Uploaded path)) =
       (s\<lparr>trace := trace s @ [Upload path]\<rparr>, Redirect ''/admin#projects'')"
proof -
  have strict: "\<not> strict_eq (project_id q) pid" if "q \<in> set (projects d)" for q
    using assms(6) that by (cases "project_id q") auto
  then have none: "findIndex (\<lambda>q. strict_eq (project_id q) pid) (projects d) = None"
    by (simp add: findIndex_None_iff)
  have "loose_eq (project_id p) pid" using assms(4,5) by simp
  with assms(3) have some: "findIndex (\<lambda>q. loose_eq (project_id q) pid) (projects d) \<noteq> None"
    by (auto simp: findIndex_None_iff)
  from assms(1,2) none some show ?thesis
    by (simp add: handle_def update_project_def delete_project_image_def delete_project_def
        upload_project_image_def single_trace upload_calls_def)
qed

theorem project_lookup_is_strict_witness:
  "loose_eq (JNum 5) ''5'' \<and>
   handle calm (demo_server\<lparr>portfolioData := Some (demo_doc\<lparr>projects := [legacy_project]\<rparr>)\<rparr>)
     (UpdateProject ''5'' (Some ''New'') None None) =
     (demo_server\<lparr>portfolioData := Some (demo_doc\<lparr>projects := [legacy_project]\<rparr>)\<rparr>,
      Redirect ''/admin#projects'') \<and>
   handle calm (demo_server\<lparr>portfolioData := Some (demo_doc\<lparr>projects := [legacy_project]\<rparr>)\<rparr>)
     (DeleteProject ''5'') =
     (demo_server\<lparr>portfolioData := Some (demo_doc\<lparr>projects := [legacy_project]\<rparr>)\<rparr>,
      Redirect ''/admin#projects'')"
proof -
  let ?d = "demo_doc\<lparr>projects := [legacy_project]\<rparr>"
  let ?s = "demo_server\<lparr>portfolioData := Some ?d\<rparr>"
  have l: "loose_eq (JNum 5) ''5''" by (rule demo_number_ids)
  have h: "isLoggedIn ?s" "portfolioData ?s = Some ?d" "legacy_project \<in> set (projects ?d)"
    "project_id legacy_project = JNum 5"
    "\<forall>q\<in>set (projects ?d). project_id q \<noteq> JStr ''5''"
    by (simp_all add: demo_server_def legacy_project_def)
  from project_lookup_is_strict [OF h(1-4) l h(5), where w = calm] l show ?thesis
    by simp
qed

theorem project_with_string_id_still_matches:
  "project_id legacy_project = JNum 5 \<and> project_id string5_project = JStr ''5'' \<and>
   handle calm
       (demo_server\<lparr>portfolioData :=
          Some (demo_doc\<lparr>projects := [legacy_project, string5_project]\<rparr>)\<rparr>)
       (UpdateProject ''5'' (Some ''Renamed'') None None) =
     (demo_server
        \<lparr>portfolioData := Some (demo_doc\<lparr>projects :=
            [legacy_project, string5_project\<lparr>project_title := Some ''Renamed''\<rparr>]\<rparr>),
         db := Some (demo_doc\<lparr>projects :=
            [legacy_project, string5_project\<lparr>project_title := Some ''Renamed''\<rparr>]\<rparr>),
         trace := [Save (demo_doc\<lparr>projects :=
            [legacy_project, string5_project\<lparr>project_title := Some ''Renamed''\<rparr>]\<rparr>)]\<rparr>,
      Redirect ''/admin#projects'')"
  by (simp add: handle_def update_project_def Let_def ending_simps legacy_project_def
      string5_project_def demo_server_def calm_def)

section \<open>Write-through after a mutation (C1)\<close>

text \<open>
  C1 says that every mutating request applies its change, saves the held document and
  then reloads it from the store. \<open>update-text\<close> does the first two only: for a logged-in
  admin, a loaded document and a store that accepts the write, the calls it adds to the
  trace are the one \<open>Save\<close> of the changed document, after which it redirects; no
  \<open>FindById\<close> follows. (The witness sets \<open>delete-gallery-photo\<close> beside it, whose
  trace does end with \<open>FindById\<close>.)
\<close>

theorem update_text_saves_without_reload:
  assumes "isLoggedIn s" and "portfolioData s = Some d" and "\<not> save_fails w"
  shows "trace (fst (handle w s (UpdateText aboutSummary aboutFull (Some aboutSkills)))) =
           trace s @
           [Save (d\<lparr>about := (about d)
                    \<lparr>summary := aboutSummary, fullStory := aboutFull,
                     skills := filter (\<lambda>x. 0 < length x)
                                 (map trim (split (CHR 0x0A) aboutSkills))\<rparr>\<rparr>)] \<and>
         snd (handle w s (UpdateText aboutSummary aboutFull (Some aboutSkills))) =
           Redirect ''/admin#general''"
  using assms by (simp add: handle_def update_text_def Let_def ending_simps)

theorem update_text_saves_without_reload_witness:
  "trace (fst (handle calm demo_server
      (UpdateText (Some ''hi'') (Some ''story'') (Some (''HTML'' @ [CHR 0x0A] @ '' CSS ''))))) =
     [Save (demo_doc\<lparr>about := \<lparr>summary = Some ''hi'', fullStory = Some ''story'',
                                skills = [''HTML'', ''CSS''],
                                photoUrl = Some ''/images/me.jpg''\<rparr>\<rparr>)] \<and>
   snd (handle calm demo_server
      (UpdateText (Some ''hi'') (Some ''story'') (Some (''HTML'' @ [CHR 0x0A] @ '' CSS '')))) =
     Redirect ''/admin#general'' \<and>
   trace (fst (handle calm demo_server (DeleteGalleryPhoto ''g1''))) =
     [Destroy ''portfolio/Gallery/abc'', Save (demo_doc\<lparr>gallery := []\<rparr>), FindById]"
proof -
  have L: "isLoggedIn demo_server" "portfolioData demo_server = Some demo_doc"
    "\<not> save_fails calm"
    by (simp_all add: demo_server_def calm_def)
  have ab: "about demo_doc = \<lparr>summary = Some ''s'', fullStory = Some ''f'', skills = [''HTML''],
               photoUrl = Some ''/images/me.jpg''\<rparr>"
    by (simp add: demo_doc_def)
  have tr: "trace demo_server = []" by (simp add: demo_server_def)
  have del: "trace (fst (handle calm demo_server (DeleteGalleryPhoto ''g1''))) =
     [Destroy ''portfolio/Gallery/abc'', Save (demo_doc\<lparr>gallery := []\<rparr>), FindById]"
    by (simp add: handle_def delete_gallery_photo_def Let_def ending_simps destroy_calls_def
        demo_server_def calm_def demo_doc_def demo_photo_def splice1_def asset_defs
        is_digit_def is_line_terminator_def)
  from update_text_saves_without_reload [OF L, of "Some ''hi''" "Some ''story''"
      "''HTML'' @ [CHR 0x0A] @ '' CSS ''"] del
  show ?thesis by (simp add: ab tr trim_def is_white_space_def)
qed

end
